theory Spec2Isabelle
  imports Main "HOL-Library.Char_ord" "HOL-Library.List_Lexorder"
begin

section \<open>Python values and strings\<close>

text \<open>
  The label generator \<^verbatim>\<open>partslabel.py\<close> works on Python strings. A Python
  string is modelled as a HOL \<open>string\<close>; the characters covered are the code points
  below 256. The helper functions of the script test their argument with
  \<^verbatim>\<open>isinstance(x, str)\<close> and convert it with \<^verbatim>\<open>str(x)\<close>, so their
  argument is a Python value.
\<close>

datatype pyval = PyNone | PyBool bool | PyInt int | PyStr string

datatype error = IndexError | KeyError | ValueError

text \<open>Truthiness, as tested by \<^verbatim>\<open>not x\<close>.\<close>

fun truthy :: "pyval \<Rightarrow> bool" where
  "truthy PyNone = False"
| "truthy (PyBool b) = b"
| "truthy (PyInt i) = (i \<noteq> 0)"
| "truthy (PyStr s) = (s \<noteq> [])"

fun isinstance_str :: "pyval \<Rightarrow> bool" where
  "isinstance_str (PyStr s) = True"
| "isinstance_str v = False"

text \<open>Decimal rendering of a natural number, most significant digit first.\<close>

definition digit_char :: "nat \<Rightarrow> char" where
  "digit_char d = char_of (of_char CHR ''0'' + d)"

function str_nat :: "nat \<Rightarrow> string" where
  "str_nat n = (if n < 10 then [digit_char n] else str_nat (n div 10) @ [digit_char (n mod 10)])"
  by pat_completeness auto
termination
  by (relation "measure (\<lambda>n. n)") auto

declare str_nat.simps [simp del]

text \<open>\<^verbatim>\<open>str(x)\<close> on the values modelled.\<close>

fun py_str :: "pyval \<Rightarrow> string" where
  "py_str PyNone = ''None''"
| "py_str (PyBool b) = (if b then ''True'' else ''False'')"
| "py_str (PyInt i) = (if i < 0 then CHR ''-'' # str_nat (nat (- i)) else str_nat (nat i))"
| "py_str (PyStr s) = s"

text \<open>
  \<^verbatim>\<open>str.isspace\<close> on one character, which is also what \<^verbatim>\<open>\s\<close> matches in a
  \<^verbatim>\<open>re\<close> pattern over \<^verbatim>\<open>str\<close>: tab, line feed, vertical tab, form feed,
  carriage return, the four separators 28 to 31, space, NEL (133) and the no-break
  space (160).
\<close>

definition isspace :: "char \<Rightarrow> bool" where
  "isspace c = (let n = (of_char c :: nat) in
                  (9 \<le> n \<and> n \<le> 13) \<or> (28 \<le> n \<and> n \<le> 32) \<or> n = 133 \<or> n = 160)"

text \<open>\<^verbatim>\<open>s.strip()\<close>: leading and trailing whitespace removed.\<close>

definition strip :: "string \<Rightarrow> string" where
  "strip s = rev (dropWhile isspace (rev (dropWhile isspace s)))"

section \<open>Location parser\<close>

text \<open>
  The pattern \<^verbatim>\<open>([^_\s]+)\<close>: a character of the class is one that is neither an
  underscore nor whitespace.
\<close>

definition in_class :: "char \<Rightarrow> bool" where
  "in_class c = (\<not> (c = CHR ''_'' \<or> isspace c))"

text \<open>
  \<^verbatim>\<open>re.findall(pattern, s)\<close> for this pattern. The scan goes from left to right:
  at a character outside the class there is no match and the scan moves on by one; at a
  character of the class the greedy \<^verbatim>\<open>+\<close> takes the longest run and the scan
  resumes after it.
\<close>

function findall :: "string \<Rightarrow> string list" where
  "findall [] = []"
| "findall (c # cs) =
     (if in_class c
      then (c # takeWhile in_class cs) # findall (dropWhile in_class cs)
      else findall cs)"
  by pat_completeness auto
termination
  by (relation "measure length") (auto simp: length_dropWhile_le less_Suc_eq_le)

text \<open>\<^verbatim>\<open>enumerate(xs)\<close>.\<close>

definition enumerate_list :: "'a list \<Rightarrow> (nat \<times> 'a) list" where
  "enumerate_list xs = zip [0..<length xs] xs"

text \<open>
  \<^verbatim>\<open>parse_location_string_v1\<close>. The list \<^verbatim>\<open>location_parts\<close> starts as seven
  empty strings and is updated by index in the loop over \<^verbatim>\<open>enumerate(matches[:7])\<close>.
\<close>

definition parse_location_string_v1 :: "pyval \<Rightarrow> string list" where
  "parse_location_string_v1 location_str =
     (let location_parts = replicate 7 ''''
      in if \<not> truthy location_str \<or> \<not> isinstance_str location_str then location_parts
         else
           let location_str' = strip (py_str location_str);
               matches = findall location_str'
           in foldl (\<lambda>parts (i, m). parts[i := m]) location_parts
                (enumerate_list (take 7 matches)))"

text \<open>\<^verbatim>\<open>parse_location_string_v2\<close> has the same body.\<close>

definition parse_location_string_v2 :: "pyval \<Rightarrow> string list" where
  "parse_location_string_v2 location_str =
     (let location_parts = replicate 7 ''''
      in if \<not> truthy location_str \<or> \<not> isinstance_str location_str then location_parts
         else
           let location_str' = strip (py_str location_str);
               matches = findall location_str'
           in foldl (\<lambda>parts (i, m). parts[i := m]) location_parts
                (enumerate_list (take 7 matches)))"

text \<open>
  The specification's wording of the tokenizer: a token is a maximal run of characters
  that are neither whitespace nor underscore. A run is given by its bounds \<open>i < j\<close>;
  it is maximal when it cannot be extended on either side.
\<close>

definition is_delimiter :: "char \<Rightarrow> bool" where
  "is_delimiter c = (isspace c \<or> c = CHR ''_'')"

definition maximal_run :: "string \<Rightarrow> nat \<Rightarrow> nat \<Rightarrow> bool" where
  "maximal_run s i j =
     (i < j \<and> j \<le> length s
      \<and> (\<forall>k \<in> {i..<j}. \<not> is_delimiter (s ! k))
      \<and> (i = 0 \<or> is_delimiter (s ! (i - 1)))
      \<and> (j = length s \<or> is_delimiter (s ! j)))"

definition spec_tokens :: "string \<Rightarrow> string list" where
  "spec_tokens s =
     concat (map (\<lambda>i. concat (map (\<lambda>j. if maximal_run s i j then [take (j - i) (drop i s)] else [])
                                [Suc i..<Suc (length s)]))
              [0..<length s])"

text \<open>
  Notions used to compare the two tokenizers: the tokens that start at position \<open>i\<close>,
  the tokens that start after position 0, and the ends of a run that starts a string.
\<close>

definition run_tokens :: "string \<Rightarrow> nat \<Rightarrow> string list" where
  "run_tokens s i =
     concat (map (\<lambda>j. if maximal_run s i j then [take (j - i) (drop i s)] else [])
               [Suc i..<Suc (length s)])"

definition later_tokens :: "string \<Rightarrow> string list" where
  "later_tokens s = concat (map (run_tokens s) [Suc 0..<length s])"

definition prefix_end :: "string \<Rightarrow> nat \<Rightarrow> bool" where
  "prefix_end cs j =
     (j \<le> length cs \<and> (\<forall>k \<in> {0..<j}. \<not> is_delimiter (cs ! k))
      \<and> (j = length cs \<or> is_delimiter (cs ! j)))"

definition prefix_tokens :: "string \<Rightarrow> string list" where
  "prefix_tokens cs =
     concat (map (\<lambda>j. if prefix_end cs j then [take j cs] else []) [0..<Suc (length cs)])"

definition spec_location_fields :: "string \<Rightarrow> string list" where
  "spec_location_fields s =
     (let toks = take 7 (spec_tokens (strip s))
      in toks @ replicate (7 - length toks) '''')"


section \<open>Typography\<close>

text \<open>
  A \<^verbatim>\<open>ParagraphStyle\<close> of reportlab, with the attributes the script sets
  (\<^verbatim>\<open>TA_LEFT\<close> is 0), and a \<^verbatim>\<open>Paragraph\<close>: its markup text and its style.
\<close>

record ParagraphStyle =
  name :: string
  fontName :: string
  fontSize :: nat
  alignment :: nat
  leading :: nat
  spaceBefore :: nat
  spaceAfter :: nat

record para =
  markup :: string
  pstyle :: ParagraphStyle

definition TA_LEFT :: nat where
  "TA_LEFT = 0"

definition bold_style_v1 :: ParagraphStyle where
  "bold_style_v1 = \<lparr>name = ''Bold_v1'', fontName = ''Helvetica-Bold'', fontSize = 10,
                     alignment = TA_LEFT, leading = 20, spaceBefore = 2, spaceAfter = 2\<rparr>"

definition bold_style_v2 :: ParagraphStyle where
  "bold_style_v2 = \<lparr>name = ''Bold_v2'', fontName = ''Helvetica-Bold'', fontSize = 10,
                     alignment = TA_LEFT, leading = 12, spaceBefore = 0, spaceAfter = 15\<rparr>"

definition desc_style :: ParagraphStyle where
  "desc_style = \<lparr>name = ''Description'', fontName = ''Helvetica'', fontSize = 20,
                  alignment = TA_LEFT, leading = 16, spaceBefore = 2, spaceAfter = 2\<rparr>"

text \<open>
  The constructor \<^verbatim>\<open>Paragraph(text, style)\<close> parses the text as markup and raises
  \<^verbatim>\<open>ValueError\<close> on text it cannot parse (an unclosed tag, for one). The parser
  belongs to reportlab, so the test is a parameter \<open>accepts\<close> of the model.
\<close>

definition Paragraph :: "(string \<Rightarrow> bool) \<Rightarrow> string \<Rightarrow> ParagraphStyle \<Rightarrow> error + para" where
  "Paragraph accepts t sty = (if accepts t then Inr \<lparr>markup = t, pstyle = sty\<rparr> else Inl ValueError)"

text \<open>
  The rebinding \<^verbatim>\<open>if not x or not isinstance(x, str): x = str(x)\<close> leaves a string:
  \<^verbatim>\<open>x\<close> itself when it is a non-empty \<^verbatim>\<open>str\<close>, and \<^verbatim>\<open>str(x)\<close> otherwise.
\<close>

definition rebind_str :: "pyval \<Rightarrow> string" where
  "rebind_str x =
     (if \<not> truthy x \<or> \<not> isinstance_str x then py_str x
      else (case x of PyStr s \<Rightarrow> s | _ \<Rightarrow> py_str x))"

text \<open>The slices \<^verbatim>\<open>s[:n]\<close> for \<open>n \<ge> 0\<close> and \<^verbatim>\<open>s[-n:]\<close> for \<open>n > 0\<close>.\<close>

definition slice_to :: "nat \<Rightarrow> string \<Rightarrow> string" where
  "slice_to n s = take n s"

definition slice_last :: "nat \<Rightarrow> string \<Rightarrow> string" where
  "slice_last n s = drop (length s - n) s"

definition format_part_no_v1 :: "(string \<Rightarrow> bool) \<Rightarrow> pyval \<Rightarrow> error + para" where
  "format_part_no_v1 accepts part_no =
     (let part_no' = rebind_str part_no
      in if length part_no' > 5
         then
           let split_point = length part_no' - 5;
               part1 = slice_to split_point part_no';
               part2 = slice_last 5 part_no'
           in Paragraph accepts
                (''<b><font size=17>'' @ part1 @ ''</font><font size=22>'' @ part2 @ ''</font></b>'')
                bold_style_v1
         else Paragraph accepts (''<b><font size=17>'' @ part_no' @ ''</font></b>'') bold_style_v1)"

definition format_part_no_v2 :: "(string \<Rightarrow> bool) \<Rightarrow> pyval \<Rightarrow> error + para" where
  "format_part_no_v2 accepts part_no =
     (let part_no' = rebind_str part_no
      in if length part_no' > 5
         then
           let split_point = length part_no' - 5;
               part1 = slice_to split_point part_no';
               part2 = slice_last 5 part_no'
           in Paragraph accepts
                (''<b><font size=34>'' @ part1 @ ''</font><font size=40>'' @ part2
                   @ ''</font></b><br/><br/>'')
                bold_style_v2
         else Paragraph accepts (''<b><font size=34>'' @ part_no' @ ''</font></b><br/><br/>'')
                bold_style_v2)"

text \<open>
  \<^verbatim>\<open>format_description_v1\<close>: the chain of tests on the length of the description
  sets the font size, and its last branch also cuts a description of more than 100
  characters.
\<close>

definition format_description_v1 :: "(string \<Rightarrow> bool) \<Rightarrow> pyval \<Rightarrow> error + para" where
  "format_description_v1 accepts desc =
     (let desc' = rebind_str desc;
          desc_length = length desc';
          (font_size, desc'') =
            (if desc_length \<le> 30 then (15, desc')
             else if desc_length \<le> 50 then (13, desc')
             else if desc_length \<le> 70 then (11, desc')
             else if desc_length \<le> 90 then (10, desc')
             else (9, if length desc' > 100 then slice_to 100 desc' @ ''...'' else desc'));
          desc_style_v1 = \<lparr>name = ''Description_v1'', fontName = ''Helvetica'',
                            fontSize = font_size, alignment = TA_LEFT,
                            leading = font_size + 2, spaceBefore = 1, spaceAfter = 1\<rparr>
      in Paragraph accepts desc'' desc_style_v1)"

definition format_description :: "(string \<Rightarrow> bool) \<Rightarrow> pyval \<Rightarrow> error + para" where
  "format_description accepts desc = Paragraph accepts (rebind_str desc) desc_style"


section \<open>Column resolver\<close>

text \<open>The substring test \<^verbatim>\<open>sub in s\<close>.\<close>

fun starts_with :: "string \<Rightarrow> string \<Rightarrow> bool" where
  "starts_with [] s = True"
| "starts_with (p # ps) [] = False"
| "starts_with (p # ps) (c # cs) = (p = c \<and> starts_with ps cs)"

fun py_in :: "string \<Rightarrow> string \<Rightarrow> bool" where
  "py_in sub [] = (sub = [])"
| "py_in sub (c # cs) = (starts_with sub (c # cs) \<or> py_in sub cs)"

text \<open>
  \<^verbatim>\<open>next((col for col in cols if p(col)), None)\<close> is \<open>find p cols\<close>. The statement
  \<^verbatim>\<open>if not x: x = fallback\<close> replaces \<^verbatim>\<open>None\<close> and the empty string;
  \<^verbatim>\<open>cols[0]\<close> raises \<^verbatim>\<open>IndexError\<close> on an empty list.
\<close>

fun if_not :: "string option \<Rightarrow> (error + string) \<Rightarrow> error + string" where
  "if_not None fallback = fallback"
| "if_not (Some c) fallback = (if c = [] then fallback else Inr c)"

definition first_column :: "string list \<Rightarrow> error + string" where
  "first_column cols = (case cols of [] \<Rightarrow> Inl IndexError | c # _ \<Rightarrow> Inr c)"

definition bind_err :: "error + 'a \<Rightarrow> ('a \<Rightarrow> error + 'b) \<Rightarrow> error + 'b" where
  "bind_err m f = (case m of Inl e \<Rightarrow> Inl e | Inr x \<Rightarrow> f x)"

text \<open>
  The column search of both generators, on the upper-cased names \<^verbatim>\<open>cols\<close>. The
  result is \<^verbatim>\<open>(part_no_col, desc_col, loc_col)\<close>.
\<close>

definition resolve_columns :: "string list \<Rightarrow> error + (string \<times> string \<times> string)" where
  "resolve_columns cols =
     (let part_no_col =
            (case find (\<lambda>col. py_in ''PART'' col
                               \<and> (py_in ''NO'' col \<or> py_in ''NUM'' col \<or> py_in ''#'' col)) cols of
               Some col \<Rightarrow> Some col
             | None \<Rightarrow> find (\<lambda>col. col = ''PARTNO'' \<or> col = ''PART'') cols);
          desc_col = find (\<lambda>col. py_in ''DESC'' col) cols;
          loc_col = find (\<lambda>col. py_in ''LOC'' col \<or> py_in ''POS'' col) cols
      in bind_err (if_not part_no_col (first_column cols)) (\<lambda>part_no_col'.
         bind_err (if_not desc_col (Inr (if length cols > 1 then cols ! 1 else part_no_col')))
           (\<lambda>desc_col'.
         bind_err (if_not loc_col (Inr (if length cols > 2 then cols ! 2 else desc_col')))
           (\<lambda>loc_col'. Inr (part_no_col', desc_col', loc_col')))))"

text \<open>The three rules in the specification's words.\<close>

definition spec_part_number_column :: "string list \<Rightarrow> string" where
  "spec_part_number_column cols =
     (case find (\<lambda>c. py_in ''PART'' c \<and> (py_in ''NO'' c \<or> py_in ''NUM'' c \<or> py_in ''#'' c)) cols of
        Some c \<Rightarrow> c
      | None \<Rightarrow>
          (case find (\<lambda>c. c = ''PARTNO'' \<or> c = ''PART'') cols of
             Some c \<Rightarrow> c
           | None \<Rightarrow> hd cols))"

definition spec_description_column :: "string list \<Rightarrow> string" where
  "spec_description_column cols =
     (case find (py_in ''DESC'') cols of
        Some c \<Rightarrow> c
      | None \<Rightarrow> if 2 \<le> length cols then cols ! 1 else spec_part_number_column cols)"

definition spec_location_column :: "string list \<Rightarrow> string" where
  "spec_location_column cols =
     (case find (\<lambda>c. py_in ''LOC'' c \<or> py_in ''POS'' c) cols of
        Some c \<Rightarrow> c
      | None \<Rightarrow> if 3 \<le> length cols then cols ! 2 else spec_description_column cols)"

section \<open>The record set\<close>

text \<open>
  The \<^verbatim>\<open>DataFrame\<close> passed to a generator: its column labels and its rows, a row
  holding one cell per column. The column labels are strings, as the input boundary of
  the specification has them. A cell holds a value or is missing (\<open>None\<close> here, NaN
  in pandas, whose \<^verbatim>\<open>str\<close> is \<^verbatim>\<open>nan\<close>). The values are of a type \<open>'c\<close>:
  texts, numbers or what else the loader has read. Two things the script does with a
  value depend on that type and are parameters of the model: \<^verbatim>\<open>str(x)\<close>, the
  parameter \<open>str_of\<close>, and the order in which pandas sorts the values, the linear
  order of \<open>'c\<close>. For texts \<open>str_of\<close> is the identity and the order is that of the
  code points; for integers \<open>str_of\<close> is the decimal rendering and the order is that
  of the numbers.

  A row taken out of the frame is a \<^verbatim>\<open>Series\<close> indexed by the column labels. The
  labels are taken as distinct once upper-cased, and the lookup of a label returns the
  cell of its first occurrence.
\<close>

record 'c dataframe =
  columns :: "string list"
  rows :: "'c option list list"

type_synonym 'c series = "(string \<times> 'c option) list"

definition series_get :: "'c series \<Rightarrow> string \<Rightarrow> error + 'c option" where
  "series_get r col = (case map_of r col of None \<Rightarrow> Inl KeyError | Some v \<Rightarrow> Inr v)"

definition str_cell :: "('c \<Rightarrow> string) \<Rightarrow> 'c option \<Rightarrow> string" where
  "str_cell str_of v = (case v of None \<Rightarrow> ''nan'' | Some x \<Rightarrow> str_of x)"

text \<open>
  \<^verbatim>\<open>df.groupby(col)\<close> and the iteration over it, as pandas defines them: the label
  must name one column; rows whose key is missing are left out; with the default
  \<^verbatim>\<open>sort=True\<close> the groups come in ascending order of their keys; inside a group the
  rows keep the order of the frame.
\<close>

definition group_key :: "string \<Rightarrow> 'c series \<Rightarrow> 'c option" where
  "group_key col r = (case map_of r col of Some (Some v) \<Rightarrow> Some v | _ \<Rightarrow> None)"

definition groupby ::
  "('c::linorder) dataframe \<Rightarrow> string \<Rightarrow> error + ('c \<times> 'c series list) list" where
  "groupby df col =
     (if col \<notin> set (columns df) then Inl KeyError
      else if count_list (columns df) col > 1 then Inl ValueError
      else
        let items = map (zip (columns df)) (rows df);
            keys = sort (remdups (List.map_filter (group_key col) items))
        in Inr (map (\<lambda>k. (k, filter (\<lambda>r. group_key col r = Some k) items)) keys))"

section \<open>Label blocks\<close>

text \<open>
  A \<^verbatim>\<open>Table\<close> holds rows of cells, a cell being a plain string or a
  \<^verbatim>\<open>Paragraph\<close>, and the commands of its \<^verbatim>\<open>TableStyle\<close>: a command name, the
  first and the last cell of its range as (column, row), and its arguments. The column
  widths and row heights are products of floating-point numbers and are left out. The
  flowables handed to the document are tables, spacers (width, and height in
  millimetres) and page breaks.
\<close>

datatype cell = Str string | Para para

datatype color = HexColor string | black

datatype arg = AInt int | AStr string | AColor color

type_synonym style_cmd = "string \<times> (int \<times> int) \<times> (int \<times> int) \<times> arg list"

record table =
  tdata :: "cell list list"
  tstyle :: "style_cmd list"

datatype flowable = TableF table | Spacer nat nat | PageBreak

definition part_table_style_v1 :: "style_cmd list" where
  "part_table_style_v1 =
     [(''GRID'', (0, 0), (-1, -1), [AInt 1, AColor black]),
      (''ALIGN'', (0, 0), (0, -1), [AStr ''CENTRE'']),
      (''ALIGN'', (1, 0), (1, -1), [AStr ''LEFT'']),
      (''VALIGN'', (0, 0), (0, 0), [AStr ''MIDDLE'']),
      (''VALIGN'', (1, 0), (1, 0), [AStr ''MIDDLE'']),
      (''VALIGN'', (0, 1), (0, 1), [AStr ''MIDDLE'']),
      (''VALIGN'', (1, 1), (1, 1), [AStr ''MIDDLE'']),
      (''LEFTPADDING'', (0, 0), (-1, -1), [AInt 5]),
      (''RIGHTPADDING'', (0, 0), (-1, -1), [AInt 5]),
      (''TOPPADDING'', (0, 0), (-1, -1), [AInt 3]),
      (''BOTTOMPADDING'', (0, 0), (-1, -1), [AInt 3]),
      (''FONTNAME'', (0, 0), (0, -1), [AStr ''Helvetica'']),
      (''FONTSIZE'', (0, 0), (0, -1), [AInt 16])]"

definition part_table_style_v2 :: "style_cmd list" where
  "part_table_style_v2 =
     [(''GRID'', (0, 0), (-1, -1), [AInt 1, AColor black]),
      (''ALIGN'', (0, 0), (0, -1), [AStr ''CENTER'']),
      (''ALIGN'', (1, 0), (1, 0), [AStr ''CENTER'']),
      (''ALIGN'', (1, 1), (1, -1), [AStr ''LEFT'']),
      (''VALIGN'', (0, 0), (0, 0), [AStr ''MIDDLE'']),
      (''VALIGN'', (1, 0), (1, 0), [AStr ''TOP'']),
      (''VALIGN'', (0, 1), (0, 1), [AStr ''MIDDLE'']),
      (''VALIGN'', (1, 1), (1, 1), [AStr ''MIDDLE'']),
      (''LEFTPADDING'', (0, 0), (-1, -1), [AInt 5]),
      (''RIGHTPADDING'', (0, 0), (-1, -1), [AInt 5]),
      (''TOPPADDING'', (1, 0), (1, 0), [AInt 10]),
      (''BOTTOMPADDING'', (1, 0), (1, 0), [AInt 5]),
      (''FONTNAME'', (0, 0), (0, -1), [AStr ''Helvetica'']),
      (''FONTSIZE'', (0, 0), (0, -1), [AInt 16])]"

definition location_colors :: "color list" where
  "location_colors =
     [HexColor ''#E9967A'', HexColor ''#ADD8E6'', HexColor ''#90EE90'', HexColor ''#FFD700'',
      HexColor ''#ADD8E6'', HexColor ''#E9967A'', HexColor ''#90EE90'']"

text \<open>
  The style of the location strip: the fixed commands, with the font size of the field
  cells (14 in v1, 16 in v2), then one \<^verbatim>\<open>BACKGROUND\<close> command per colour, appended
  in the loop over \<^verbatim>\<open>enumerate(location_colors)\<close>.
\<close>

definition location_style_base :: "int \<Rightarrow> style_cmd list" where
  "location_style_base field_font_size =
     [(''GRID'', (0, 0), (-1, -1), [AInt 1, AColor black]),
      (''ALIGN'', (0, 0), (-1, -1), [AStr ''CENTER'']),
      (''VALIGN'', (0, 0), (0, 0), [AStr ''TOP'']),
      (''VALIGN'', (1, 0), (-1, 0), [AStr ''TOP'']),
      (''FONTNAME'', (0, 0), (-1, -1), [AStr ''Helvetica'']),
      (''FONTSIZE'', (0, 0), (0, 0), [AInt 16]),
      (''FONTSIZE'', (1, 0), (-1, -1), [AInt field_font_size])]"

definition location_style :: "int \<Rightarrow> style_cmd list" where
  "location_style field_font_size =
     foldl (\<lambda>sty (j, color). sty @ [(''BACKGROUND'', (int j + 1, 0), (int j + 1, 0), [AColor color])])
       (location_style_base field_font_size) (enumerate_list location_colors)"

definition location_table :: "int \<Rightarrow> string list \<Rightarrow> table" where
  "location_table field_font_size location_values =
     \<lparr>tdata = [Str ''Part Location'' # map Str location_values],
      tstyle = location_style field_font_size\<rparr>"

text \<open>
  The background of a cell of the first row: the colour of the last
  \<^verbatim>\<open>BACKGROUND\<close> command whose range is that cell, if there is one.
\<close>

definition cell_background :: "table \<Rightarrow> nat \<Rightarrow> color option" where
  "cell_background t col =
     (case filter (\<lambda>(cmd, start, stop, args).
                      cmd = ''BACKGROUND'' \<and> start = (int col, 0) \<and> stop = (int col, 0))
             (tstyle t) of
        [] \<Rightarrow> None
      | cmds \<Rightarrow> (case snd (snd (snd (last cmds))) of [AColor c] \<Rightarrow> Some c | _ \<Rightarrow> None))"

text \<open>
  The body of the \<^verbatim>\<open>try\<close> block of \<^verbatim>\<open>generate_labels_from_excel_v1\<close> from the
  reading of the cells to the five flowables of a block. An exception raised on the way
  leaves the block unbuilt.
\<close>

definition part_table_v1 :: "para \<Rightarrow> para \<Rightarrow> table" where
  "part_table_v1 p d =
     \<lparr>tdata = [[Str ''Part No'', Para p], [Str ''Description'', Para d]],
      tstyle = part_table_style_v1\<rparr>"

definition build_block_v1 ::
  "('c \<Rightarrow> string) \<Rightarrow> (string \<Rightarrow> bool) \<Rightarrow> string \<times> string \<times> string \<Rightarrow>
   'c series \<Rightarrow> 'c series \<Rightarrow> error + flowable list" where
  "build_block_v1 str_of accepts cols3 part1 part2 =
     (case cols3 of (part_no_col, desc_col, loc_col) \<Rightarrow>
        bind_err (series_get part1 part_no_col) (\<lambda>v1.
        bind_err (series_get part1 desc_col) (\<lambda>v2.
        bind_err (series_get part2 part_no_col) (\<lambda>v3.
        bind_err (series_get part2 desc_col) (\<lambda>v4.
        bind_err (series_get part1 loc_col) (\<lambda>v5.
          let part_no_1 = str_cell str_of v1;
              desc_1 = str_cell str_of v2;
              part_no_2 = str_cell str_of v3;
              desc_2 = str_cell str_of v4;
              location_str = str_cell str_of v5;
              location_values = parse_location_string_v1 (PyStr location_str)
          in
        bind_err (format_part_no_v1 accepts (PyStr part_no_1)) (\<lambda>p1.
        bind_err (format_description_v1 accepts (PyStr desc_1)) (\<lambda>d1.
        bind_err (format_part_no_v1 accepts (PyStr part_no_2)) (\<lambda>p2.
        bind_err (format_description_v1 accepts (PyStr desc_2)) (\<lambda>d2.
          Inr [TableF (part_table_v1 p1 d1), Spacer 1 3, TableF (part_table_v1 p2 d2),
               TableF (location_table 14 location_values), Spacer 1 2]))))))))))"

definition part_table_v2 :: "para \<Rightarrow> para \<Rightarrow> table" where
  "part_table_v2 p d =
     \<lparr>tdata = [[Str ''Part No'', Para p], [Str ''Description'', Para d]],
      tstyle = part_table_style_v2\<rparr>"

definition build_block_v2 ::
  "('c \<Rightarrow> string) \<Rightarrow> (string \<Rightarrow> bool) \<Rightarrow> string \<times> string \<times> string \<Rightarrow>
   'c series \<Rightarrow> error + flowable list" where
  "build_block_v2 str_of accepts cols3 part1 =
     (case cols3 of (part_no_col, desc_col, loc_col) \<Rightarrow>
        bind_err (series_get part1 part_no_col) (\<lambda>v1.
        bind_err (series_get part1 desc_col) (\<lambda>v2.
        bind_err (series_get part1 loc_col) (\<lambda>v3.
          let part_no = str_cell str_of v1;
              desc = str_cell str_of v2;
              location_str = str_cell str_of v3;
              location_values = parse_location_string_v2 (PyStr location_str)
          in
        bind_err (format_part_no_v2 accepts (PyStr part_no)) (\<lambda>p.
        bind_err (format_description accepts (PyStr desc)) (\<lambda>d.
          Inr [TableF (part_table_v2 p d), Spacer 1 3,
               TableF (location_table 16 location_values), Spacer 1 2]))))))"


section \<open>The generators\<close>

text \<open>
  What the two optional callbacks receive is kept as a log of events. The progress bar
  receives \<^verbatim>\<open>int((i / total_locations) * 100)\<close>, a floating-point computation, so
  the event keeps \<open>i\<close> and the total; \<open>ProgressDone\<close> is the final
  \<^verbatim>\<open>progress(100)\<close>. The other events are the texts shown by \<^verbatim>\<open>status_text\<close>;
  an event about a location keeps the group key that the f-string of the text formats.
  A callback that is passed is taken to return normally.
\<close>

datatype 'c event =
    Progress nat nat
  | ProgressDone
  | StatusColumns string string string
  | StatusProcessing nat nat 'c
  | StatusError 'c error
  | StatusBuilding
  | StatusNoLabels

record 'c loop_state =
  elements :: "flowable list"
  label_count :: nat
  events :: "'c event list"

definition emit :: "bool \<Rightarrow> 'c event \<Rightarrow> 'c loop_state \<Rightarrow> 'c loop_state" where
  "emit present ev st = (if present then st\<lparr>events := events st @ [ev]\<rparr> else st)"

definition MAX_LABELS_PER_PAGE :: nat where
  "MAX_LABELS_PER_PAGE = 4"

text \<open>
  The part of the loop body shared by both generators, once the records of the block are
  chosen: the page break, the increment of \<^verbatim>\<open>label_count\<close>, then the building of
  the block, whose flowables are appended when it succeeds; the \<^verbatim>\<open>except\<close> clause
  reports the error to \<^verbatim>\<open>status_text\<close> and goes on.
\<close>

definition place_block ::
  "bool \<Rightarrow> 'c \<Rightarrow> error + flowable list \<Rightarrow> 'c loop_state \<Rightarrow> 'c loop_state" where
  "place_block status_text location built st =
     (let st1 = (if label_count st > 0 \<and> label_count st mod MAX_LABELS_PER_PAGE = 0
                 then st\<lparr>elements := elements st @ [PageBreak]\<rparr> else st);
          st2 = st1\<lparr>label_count := label_count st1 + 1\<rparr>
      in case built of
           Inr block \<Rightarrow> st2\<lparr>elements := elements st2 @ block\<rparr>
         | Inl e \<Rightarrow> emit status_text (StatusError location e) st2)"

text \<open>One iteration of the loop of \<^verbatim>\<open>generate_labels_from_excel_v1\<close>.\<close>

definition process_group_v1 ::
  "('c \<Rightarrow> string) \<Rightarrow> (string \<Rightarrow> bool) \<Rightarrow> bool \<Rightarrow> bool \<Rightarrow> string \<times> string \<times> string \<Rightarrow> nat \<Rightarrow>
   'c loop_state \<Rightarrow> nat \<times> 'c \<times> 'c series list \<Rightarrow> 'c loop_state" where
  "process_group_v1 str_of accepts progress_bar status_text cols3 total_locations st item =
     (case item of (i, location, group_rows) \<Rightarrow>
        let st1 = emit progress_bar (Progress i total_locations) st;
            st2 = emit status_text (StatusProcessing (i + 1) total_locations location) st1;
            parts = take 2 group_rows
        in if length parts < 2
           then (if length parts = 1
                 then place_block status_text location
                        (build_block_v1 str_of accepts cols3 (parts ! 0) (parts ! 0)) st2
                 else st2)
           else place_block status_text location
                  (build_block_v1 str_of accepts cols3 (parts ! 0) (parts ! 1)) st2)"

text \<open>One iteration of the loop of \<^verbatim>\<open>generate_labels_from_excel_v2\<close>.\<close>

definition process_group_v2 ::
  "('c \<Rightarrow> string) \<Rightarrow> (string \<Rightarrow> bool) \<Rightarrow> bool \<Rightarrow> bool \<Rightarrow> string \<times> string \<times> string \<Rightarrow> nat \<Rightarrow>
   'c loop_state \<Rightarrow> nat \<times> 'c \<times> 'c series list \<Rightarrow> 'c loop_state" where
  "process_group_v2 str_of accepts progress_bar status_text cols3 total_locations st item =
     (case item of (i, location, group_rows) \<Rightarrow>
        let st1 = emit progress_bar (Progress i total_locations) st;
            st2 = emit status_text (StatusProcessing (i + 1) total_locations location) st1;
            parts = take 2 group_rows
        in if length parts < 2
           then (if length parts = 1
                 then place_block status_text location
                        (build_block_v2 str_of accepts cols3 (parts ! 0)) st2
                 else st2)
           else place_block status_text location
                  (build_block_v2 str_of accepts cols3 (parts ! 0)) st2)"

text \<open>
  The loop over \<^verbatim>\<open>enumerate(df_grouped)\<close> and the end of the function: the document is
  built from the elements when there are any, and \<^verbatim>\<open>None\<close> is returned otherwise.
  The rendering by \<^verbatim>\<open>doc.build\<close> belongs to reportlab; the returned buffer is
  represented by the elements it was built from.
\<close>

definition run_groups ::
  "('c loop_state \<Rightarrow> nat \<times> 'c \<times> 'c series list \<Rightarrow> 'c loop_state) \<Rightarrow> 'c loop_state \<Rightarrow>
   ('c \<times> 'c series list) list \<Rightarrow> 'c loop_state" where
  "run_groups body st df_grouped = foldl body st (enumerate_list df_grouped)"

definition finish ::
  "bool \<Rightarrow> bool \<Rightarrow> 'c loop_state \<Rightarrow> flowable list option \<times> 'c event list" where
  "finish progress_bar status_text st =
     (let st1 = emit progress_bar ProgressDone st
      in if elements st1 \<noteq> []
         then (Some (elements st1), events (emit status_text StatusBuilding st1))
         else (None, events (emit status_text StatusNoLabels st1)))"

text \<open>
  The result of a call: the caller's frame as the call leaves it, what the call returns
  (the flowables of the built document, or \<^verbatim>\<open>None\<close>) or raises, and the events.
\<close>

record 'c run =
  frame :: "'c dataframe"
  outcome :: "error + flowable list option"
  shown :: "'c event list"

text \<open>
  The two generators have the same code around their loop body: the upper-casing of the
  column names, the column search, the grouping, the loop and the end. The model has it
  once, with the loop body as a parameter. The method \<^verbatim>\<open>col.upper()\<close> follows the
  case mappings of Unicode, which may lengthen a string or leave the character range of
  the model; it is the parameter \<open>upper\<close>.
\<close>

definition generate_labels ::
  "(string \<Rightarrow> string) \<Rightarrow>
   ((string \<times> string \<times> string) \<Rightarrow> nat \<Rightarrow> 'c loop_state \<Rightarrow> nat \<times> 'c \<times> 'c series list \<Rightarrow>
      'c loop_state) \<Rightarrow>
   bool \<Rightarrow> bool \<Rightarrow> ('c::linorder) dataframe \<Rightarrow> 'c run" where
  "generate_labels upper body progress_bar status_text df =
     (let df' = df\<lparr>columns := map upper (columns df)\<rparr>;
          cols = columns df'
      in case resolve_columns cols of
           Inl e \<Rightarrow> \<lparr>frame = df', outcome = Inl e, shown = []\<rparr>
         | Inr (part_no_col, desc_col, loc_col) \<Rightarrow>
             let st0 = emit status_text (StatusColumns part_no_col desc_col loc_col)
                         \<lparr>elements = [], label_count = 0, events = []\<rparr>
             in (case groupby df' loc_col of
                   Inl e \<Rightarrow> \<lparr>frame = df', outcome = Inl e, shown = events st0\<rparr>
                 | Inr df_grouped \<Rightarrow>
                     let total_locations = length df_grouped;
                         st = run_groups (body (part_no_col, desc_col, loc_col) total_locations)
                                st0 df_grouped;
                         (result, evs) = finish progress_bar status_text st
                     in \<lparr>frame = df', outcome = Inr result, shown = evs\<rparr>))"

definition generate_labels_from_excel_v1 ::
  "(string \<Rightarrow> string) \<Rightarrow> ('c \<Rightarrow> string) \<Rightarrow> (string \<Rightarrow> bool) \<Rightarrow> bool \<Rightarrow> bool \<Rightarrow>
   ('c::linorder) dataframe \<Rightarrow> 'c run" where
  "generate_labels_from_excel_v1 upper str_of accepts progress_bar status_text df =
     generate_labels upper (process_group_v1 str_of accepts progress_bar status_text)
       progress_bar status_text df"

definition generate_labels_from_excel_v2 ::
  "(string \<Rightarrow> string) \<Rightarrow> ('c \<Rightarrow> string) \<Rightarrow> (string \<Rightarrow> bool) \<Rightarrow> bool \<Rightarrow> bool \<Rightarrow>
   ('c::linorder) dataframe \<Rightarrow> 'c run" where
  "generate_labels_from_excel_v2 upper str_of accepts progress_bar status_text df =
     generate_labels upper (process_group_v2 str_of accepts progress_bar status_text)
       progress_bar status_text df"

text \<open>
  Pages and blocks of a sequence of flowables: a page ends at a page break, and a block
  is counted by its location strip, the table whose first cell is \<^verbatim>\<open>Part Location\<close>.
\<close>

fun pages :: "flowable list \<Rightarrow> flowable list list" where
  "pages [] = [[]]"
| "pages (PageBreak # fs) = [] # pages fs"
| "pages (f # fs) = (case pages fs of pg # pgs \<Rightarrow> (f # pg) # pgs | [] \<Rightarrow> [[f]])"

fun is_location_strip :: "flowable \<Rightarrow> bool" where
  "is_location_strip (TableF t) =
     (case tdata t of (Str s # _) # _ \<Rightarrow> s = ''Part Location'' | _ \<Rightarrow> False)"
| "is_location_strip f = False"

definition blocks_on :: "flowable list \<Rightarrow> nat" where
  "blocks_on page = length (filter is_location_strip page)"

definition block_counts :: "flowable list \<Rightarrow> nat list" where
  "block_counts els = map blocks_on (pages els)"

section \<open>Notions used in the statements\<close>


text \<open>The font size of a description of a given length, by the buckets of the specification.\<close>

definition description_font_size :: "nat \<Rightarrow> nat" where
  "description_font_size n =
     (if n \<le> 30 then 15 else if n \<le> 50 then 13 else if n \<le> 70 then 11
      else if n \<le> 90 then 10 else 9)"

text \<open>The location strips of a sequence of flowables, in order.\<close>

fun strips_of :: "flowable list \<Rightarrow> table list" where
  "strips_of [] = []"
| "strips_of (TableF t # fs) =
     (if is_location_strip (TableF t) then t # strips_of fs else strips_of fs)"
| "strips_of (f # fs) = strips_of fs"

text \<open>The locations announced to \<^verbatim>\<open>status_text\<close>, in the order of the loop.\<close>

fun processing_order :: "'c event list \<Rightarrow> 'c list" where
  "processing_order [] = []"
| "processing_order (StatusProcessing i n location # evs) = location # processing_order evs"
| "processing_order (ev # evs) = processing_order evs"

text \<open>The values of the location column, in the order of the rows of the frame.\<close>

definition location_column_values :: "'c dataframe \<Rightarrow> string \<Rightarrow> 'c list" where
  "location_column_values df col = List.map_filter (group_key col) (map (zip (columns df)) (rows df))"

text \<open>
  The block attempted for a group: none for a group without records, else the block of
  its first two records under v1 (the single record twice when there is one) and of its
  first record under v2.
\<close>

definition block_of_group_v1 ::
  "('c \<Rightarrow> string) \<Rightarrow> (string \<Rightarrow> bool) \<Rightarrow> string \<times> string \<times> string \<Rightarrow> 'c series list \<Rightarrow>
   (error + flowable list) option" where
  "block_of_group_v1 str_of accepts cols3 rs =
     (case rs of
        [] \<Rightarrow> None
      | [r] \<Rightarrow> Some (build_block_v1 str_of accepts cols3 r r)
      | r1 # r2 # rest \<Rightarrow> Some (build_block_v1 str_of accepts cols3 r1 r2))"

definition block_of_group_v2 ::
  "('c \<Rightarrow> string) \<Rightarrow> (string \<Rightarrow> bool) \<Rightarrow> string \<times> string \<times> string \<Rightarrow> 'c series list \<Rightarrow>
   (error + flowable list) option" where
  "block_of_group_v2 str_of accepts cols3 rs =
     (case rs of
        [] \<Rightarrow> None
      | r # rest \<Rightarrow> Some (build_block_v2 str_of accepts cols3 r))"

definition is_built :: "(error + flowable list) option \<Rightarrow> bool" where
  "is_built b = (case b of Some (Inr blk) \<Rightarrow> True | _ \<Rightarrow> False)"

text \<open>The flowables of the document a run returns; none when it returns \<^verbatim>\<open>None\<close> or raises.\<close>

definition document_of :: "'c run \<Rightarrow> flowable list" where
  "document_of r = (case outcome r of Inr (Some els) \<Rightarrow> els | _ \<Rightarrow> [])"

section \<open>Sample inputs\<close>

text \<open>
  The samples are frames of texts and one frame of integers. On a text \<^verbatim>\<open>str\<close> gives
  the text itself, and on an integer its decimal rendering. On ASCII text
  \<^verbatim>\<open>upper()\<close> replaces the letters a to z by A to Z and leaves every other
  character; the column names of the samples are ASCII texts, and only they are
  upper-cased with \<open>ascii_upper\<close>.
\<close>

definition str_text :: "string \<Rightarrow> string" where
  "str_text s = s"

definition str_int :: "int \<Rightarrow> string" where
  "str_int i = py_str (PyInt i)"

definition ascii_upper_char :: "char \<Rightarrow> char" where
  "ascii_upper_char c =
     (let n = (of_char c :: nat) in if 97 \<le> n \<and> n \<le> 122 then char_of (n - 32) else c)"

definition ascii_upper :: "string \<Rightarrow> string" where
  "ascii_upper s = map ascii_upper_char s"

definition empty_state :: "'c loop_state" where
  "empty_state = \<lparr>elements = [], label_count = 0, events = []\<rparr>"

definition sample_cols3 :: "string \<times> string \<times> string" where
  "sample_cols3 = (''PART NO'', ''DESC'', ''LOC'')"

definition sample_record :: "string series" where
  "sample_record = [(''PART NO'', Some ''AB12345''), (''DESC'', Some ''Short''), (''LOC'', Some ''12M R'')]"

definition sample_record2 :: "string series" where
  "sample_record2 = [(''PART NO'', Some ''X1''), (''DESC'', Some ''Other''), (''LOC'', Some ''12M R'')]"

definition sample_para_1 :: para where
  "sample_para_1 = \<lparr>markup = ''<b><font size=17>AB</font><font size=22>12345</font></b>'',
                     pstyle = bold_style_v1\<rparr>"

definition sample_para_2 :: para where
  "sample_para_2 = \<lparr>markup = ''<b><font size=17>X1</font></b>'', pstyle = bold_style_v1\<rparr>"

definition sample_desc :: "string \<Rightarrow> para" where
  "sample_desc t = \<lparr>markup = t,
                    pstyle = \<lparr>name = ''Description_v1'', fontName = ''Helvetica'', fontSize = 15,
                              alignment = TA_LEFT, leading = 17, spaceBefore = 1, spaceAfter = 1\<rparr>\<rparr>"

definition sample_strip :: "int \<Rightarrow> table" where
  "sample_strip n = location_table n [''12M'', ''R'', '''', '''', '''', '''', '''']"

definition sample_block_single :: "flowable list" where
  "sample_block_single =
     [TableF (part_table_v1 sample_para_1 (sample_desc ''Short'')), Spacer 1 3,
      TableF (part_table_v1 sample_para_1 (sample_desc ''Short'')),
      TableF (sample_strip 14), Spacer 1 2]"

definition sample_block_pair :: "flowable list" where
  "sample_block_pair =
     [TableF (part_table_v1 sample_para_1 (sample_desc ''Short'')), Spacer 1 3,
      TableF (part_table_v1 sample_para_2 (sample_desc ''Other'')),
      TableF (sample_strip 14), Spacer 1 2]"

definition sample_block_v2 :: "flowable list" where
  "sample_block_v2 =
     [TableF (part_table_v2
                \<lparr>markup = ''<b><font size=34>AB</font><font size=40>12345</font></b><br/><br/>'',
                 pstyle = bold_style_v2\<rparr>
                \<lparr>markup = ''Short'', pstyle = desc_style\<rparr>),
      Spacer 1 3, TableF (sample_strip 16), Spacer 1 2]"

text \<open>
  Frames with the columns \<^verbatim>\<open>Part No\<close>, \<^verbatim>\<open>Desc\<close>, \<^verbatim>\<open>Loc\<close> and one row per
  given location and description, and a markup test that rejects exactly the text
  \<^verbatim>\<open><b>\<close>, an unclosed tag.
\<close>

definition frame_of :: "(string \<times> string) list \<Rightarrow> string dataframe" where
  "frame_of locs_descs =
     \<lparr>columns = [''Part No'', ''Desc'', ''Loc''],
      rows = map (\<lambda>(l, d). [Some ''P1'', Some d, Some l]) locs_descs\<rparr>"

definition accepts_but_unclosed_bold :: "string \<Rightarrow> bool" where
  "accepts_but_unclosed_bold t = (t \<noteq> ''<b>'')"

definition one_bad_group :: "string dataframe" where
  "one_bad_group = frame_of [(''A'', ''<b>''), (''B'', ''ok''), (''C'', ''ok''), (''D'', ''ok''), (''E'', ''ok'')]"

definition all_bad_groups :: "string dataframe" where
  "all_bad_groups = frame_of [(''A'', ''<b>''), (''B'', ''<b>''), (''C'', ''<b>''), (''D'', ''<b>''), (''E'', ''<b>'')]"

definition nine_groups :: "string dataframe" where
  "nine_groups = frame_of [(''A'', ''ok''), (''B'', ''ok''), (''C'', ''ok''), (''D'', ''ok''), (''E'', ''ok''),
                          (''F'', ''ok''), (''G'', ''ok''), (''H'', ''ok''), (''I'', ''ok'')]"

definition unsorted_frame :: "string dataframe" where
  "unsorted_frame = frame_of [(''B'', ''ok''), (''A'', ''ok'')]"

text \<open>
  A frame whose cells are integers, with the locations 10 then 9, and a frame whose
  column names are in upper case already.
\<close>

definition numeric_frame :: "int dataframe" where
  "numeric_frame =
     \<lparr>columns = [''Part No'', ''Desc'', ''Loc''],
      rows = [[Some 101, Some 5, Some 10], [Some 102, Some 5, Some 9]]\<rparr>"

definition upper_case_frame :: "string dataframe" where
  "upper_case_frame =
     \<lparr>columns = [''PART NO'', ''DESC'', ''LOC''],
      rows = [[Some ''P1'', Some ''ok'', Some ''A'']]\<rparr>"

section \<open>The location parser returns seven fields\<close>

text \<open>
  The regular-expression scan and the maximal runs of the specification give the same
  tokens. The comparison goes through the tokens starting at one position: shifting a
  string by one character shifts its runs.
\<close>

lemma upt_0_Suc: "[0..<Suc n] = 0 # map Suc [0..<n]"
  by (simp add: upt_conv_Cons map_Suc_upt del: upt_Suc)

lemma upt_Suc_Suc: "[Suc a..<Suc b] = map Suc [a..<b]"
  by (simp add: map_Suc_upt)

lemma ball_Suc_shift: "(\<forall>k\<in>{Suc i..<Suc j}. P ((c # cs) ! k)) = (\<forall>k\<in>{i..<j}. P (cs ! k))"
proof
  assume L: "\<forall>k\<in>{Suc i..<Suc j}. P ((c # cs) ! k)"
  show "\<forall>k\<in>{i..<j}. P (cs ! k)"
  proof
    fix k assume "k \<in> {i..<j}"
    then have "Suc k \<in> {Suc i..<Suc j}" by simp
    with L have "P ((c # cs) ! Suc k)" by blast
    then show "P (cs ! k)" by simp
  qed
next
  assume R: "\<forall>k\<in>{i..<j}. P (cs ! k)"
  show "\<forall>k\<in>{Suc i..<Suc j}. P ((c # cs) ! k)"
  proof
    fix k assume k: "k \<in> {Suc i..<Suc j}"
    then obtain k' where k': "k = Suc k'" by (cases k) auto
    with k have "k' \<in> {i..<j}" by simp
    with R have "P (cs ! k')" by blast
    then show "P ((c # cs) ! k)" by (simp add: k')
  qed
qed

lemma maximal_run_Cons_delim:
  assumes "is_delimiter c"
  shows "maximal_run (c # cs) (Suc i) (Suc j) = maximal_run cs i j"
proof -
  have a: "(Suc i = 0 \<or> is_delimiter ((c # cs) ! (Suc i - 1))) = (i = 0 \<or> is_delimiter (cs ! (i - 1)))"
    using assms by (cases i) auto
  have b: "(Suc j = length (c # cs) \<or> is_delimiter ((c # cs) ! Suc j)) = (j = length cs \<or> is_delimiter (cs ! j))"
    by simp
  have c: "(Suc i < Suc j \<and> Suc j \<le> length (c # cs)) = (i < j \<and> j \<le> length cs)" by simp
  show ?thesis
    unfolding maximal_run_def a b ball_Suc_shift[where P="\<lambda>x. \<not> is_delimiter x"] using c by blast
qed

lemma maximal_run_0_delim:
  assumes "is_delimiter c"
  shows "\<not> maximal_run (c # cs) 0 j"
  using assms unfolding maximal_run_def by (auto intro: bexI[of _ 0])

lemma spec_tokens_alt: "spec_tokens s = concat (map (run_tokens s) [0..<length s])"
  unfolding spec_tokens_def run_tokens_def ..

lemma run_tokens_Cons_delim:
  assumes "is_delimiter c"
  shows "run_tokens (c # cs) (Suc i) = run_tokens cs i"
  unfolding run_tokens_def
  by (simp add: upt_Suc_Suc[of "Suc i"] comp_def maximal_run_Cons_delim[OF assms] del: upt_Suc cong: if_cong)

lemma run_tokens_0_delim:
  assumes "is_delimiter c"
  shows "run_tokens (c # cs) 0 = []"
  unfolding run_tokens_def by (simp add: maximal_run_0_delim[OF assms] del: upt_Suc)

lemma spec_tokens_Cons_delim:
  assumes "is_delimiter c"
  shows "spec_tokens (c # cs) = spec_tokens cs"
  unfolding spec_tokens_alt
  by (simp add: upt_0_Suc comp_def run_tokens_Cons_delim[OF assms] run_tokens_0_delim[OF assms] del: upt_Suc)


lemma maximal_run_Suc_Suc:
  "maximal_run (c # cs) (Suc i) (Suc j) = ((i = 0 \<longrightarrow> is_delimiter c) \<and> maximal_run cs i j)"
proof -
  have a: "(Suc i = 0 \<or> is_delimiter ((c # cs) ! (Suc i - 1)))
           = ((i = 0 \<longrightarrow> is_delimiter c) \<and> (i = 0 \<or> is_delimiter (cs ! (i - 1))))"
    by (cases i) auto
  have b: "(Suc j = length (c # cs) \<or> is_delimiter ((c # cs) ! Suc j)) = (j = length cs \<or> is_delimiter (cs ! j))"
    by simp
  have c: "(Suc i < Suc j \<and> Suc j \<le> length (c # cs)) = (i < j \<and> j \<le> length cs)" by simp
  show ?thesis
    unfolding maximal_run_def a b ball_Suc_shift[where P="\<lambda>x. \<not> is_delimiter x"] using c by blast
qed

lemma ball_0_Suc: "(\<forall>k\<in>{0..<Suc j}. P ((c # cs) ! k)) = (P c \<and> (\<forall>k\<in>{0..<j}. P (cs ! k)))"
proof -
  have "{0..<Suc j} = insert 0 {Suc 0..<Suc j}" by auto
  then have "(\<forall>k\<in>{0..<Suc j}. P ((c # cs) ! k)) = (P c \<and> (\<forall>k\<in>{Suc 0..<Suc j}. P ((c # cs) ! k)))"
    by simp
  then show ?thesis by (simp only: ball_Suc_shift)
qed

lemma maximal_run_0_Suc:
  assumes "\<not> is_delimiter c"
  shows "maximal_run (c # cs) 0 (Suc j) = prefix_end cs j"
  unfolding maximal_run_def prefix_end_def ball_0_Suc[where P="\<lambda>x. \<not> is_delimiter x"]
  using assms by simp

lemma prefix_end_Cons_0: "prefix_end (x # xs) 0 = is_delimiter x"
  by (simp add: prefix_end_def)

lemma prefix_end_Cons_Suc: "prefix_end (x # xs) (Suc j) = (\<not> is_delimiter x \<and> prefix_end xs j)"
  unfolding prefix_end_def ball_0_Suc[where P="\<lambda>x. \<not> is_delimiter x"] by auto

lemma in_class_delim: "in_class c = (\<not> is_delimiter c)"
  by (auto simp: in_class_def is_delimiter_def)

lemma is_delimiter_iff: "is_delimiter c = (\<not> in_class c)"
  by (auto simp: in_class_def is_delimiter_def)

lemma map_if_single: "map f (if b then [x] else []) = (if b then [f x] else [])"
  by simp

lemma prefix_tokens_eq: "prefix_tokens cs = [takeWhile in_class cs]"
proof (induction cs)
  case Nil
  show ?case by (simp add: prefix_tokens_def prefix_end_def)
next
  case (Cons x xs)
  have step: "prefix_tokens (x # xs)
        = (if is_delimiter x then [[]] else []) @ (if is_delimiter x then [] else map ((#) x) (prefix_tokens xs))"
    unfolding prefix_tokens_def
    by (simp add: upt_0_Suc[of "Suc (length xs)"] upt_0_Suc[of "length xs"] comp_def prefix_end_Cons_0 prefix_end_Cons_Suc map_concat map_if_single
             del: upt_Suc cong: if_cong)
  show ?case unfolding step Cons.IH by (simp add: is_delimiter_iff)
qed

lemma run_tokens_0_class:
  assumes "\<not> is_delimiter c"
  shows "run_tokens (c # cs) 0 = [c # takeWhile in_class cs]"
proof -
  have "run_tokens (c # cs) 0 = map ((#) c) (prefix_tokens cs)"
    unfolding run_tokens_def prefix_tokens_def
    by (simp add: upt_Suc_Suc[of 0] comp_def maximal_run_0_Suc[OF assms] map_concat map_if_single del: upt_Suc cong: if_cong)
  then show ?thesis by (simp add: prefix_tokens_eq)
qed

lemma spec_tokens_split: "spec_tokens (c # cs) = run_tokens (c # cs) 0 @ later_tokens (c # cs)"
  unfolding spec_tokens_alt later_tokens_def
  by (simp add: upt_conv_Cons del: upt_Suc)

lemma run_tokens_Suc_Suc:
  "run_tokens (c # cs) (Suc i) = (if i = 0 \<and> \<not> is_delimiter c then [] else run_tokens cs i)"
  unfolding run_tokens_def
  by (simp add: upt_Suc_Suc[of "Suc i"] comp_def maximal_run_Suc_Suc del: upt_Suc cong: if_cong)

lemma later_tokens_Cons:
  "later_tokens (c # x # xs) = (if is_delimiter c then run_tokens (x # xs) 0 else []) @ later_tokens (x # xs)"
proof -
  have a: "[Suc 0..<length (c # x # xs)] = Suc 0 # map Suc [Suc 0..<length (x # xs)]"
    by (simp add: upt_conv_Cons map_Suc_upt del: upt_Suc)
  have b: "map (\<lambda>i. run_tokens (c # x # xs) (Suc i)) [Suc 0..<length (x # xs)]
           = map (run_tokens (x # xs)) [Suc 0..<length (x # xs)]"
    by (rule map_cong) (auto simp: run_tokens_Suc_Suc)
  have c: "run_tokens (c # x # xs) (Suc 0) = (if is_delimiter c then run_tokens (x # xs) 0 else [])"
    by (simp add: run_tokens_Suc_Suc)
  show ?thesis
    unfolding later_tokens_def a by (simp only: list.map concat.simps map_map comp_def b c)
qed

lemma later_tokens_single: "later_tokens [c] = []"
  by (simp add: later_tokens_def)

lemma later_tokens_class:
  "\<not> is_delimiter c \<Longrightarrow> later_tokens (c # cs) = spec_tokens (dropWhile in_class cs)"
proof (induction cs arbitrary: c)
  case Nil
  then show ?case by (simp add: later_tokens_single spec_tokens_def)
next
  case (Cons x xs)
  show ?case
  proof (cases "is_delimiter x")
    case True
    then show ?thesis
      using Cons.prems by (simp add: later_tokens_Cons is_delimiter_iff spec_tokens_split run_tokens_0_delim)
  next
    case False
    then show ?thesis
      using Cons.prems Cons.IH[of x] by (simp add: later_tokens_Cons is_delimiter_iff)
  qed
qed

lemma findall_eq_spec_tokens: "findall s = spec_tokens s"
proof (induction s rule: findall.induct)
  case 1
  show ?case by (simp add: spec_tokens_def)
next
  case (2 c cs)
  show ?case
  proof (cases "in_class c")
    case True
    then have nd: "\<not> is_delimiter c" by (simp add: in_class_delim)
    show ?thesis
      using True 2(1) by (simp add: spec_tokens_split run_tokens_0_class[OF nd] later_tokens_class[OF nd])
  next
    case False
    then have d: "is_delimiter c" by (simp add: in_class_delim)
    show ?thesis
      using False 2(2) by (simp add: spec_tokens_Cons_delim[OF d])
  qed
qed

lemma foldl_update_range:
  "k + length ms \<le> length parts \<Longrightarrow>
   foldl (\<lambda>parts (i, m). parts[i := m]) parts (zip [k..<k + length ms] ms)
     = take k parts @ ms @ drop (k + length ms) parts"
proof (induction ms arbitrary: k parts)
  case Nil
  then show ?case by simp
next
  case (Cons m ms)
  have z: "zip [k..<k + length (m # ms)] (m # ms) = (k, m) # zip [Suc k..<Suc k + length ms] ms"
    by (simp add: upt_conv_Cons del: upt_Suc)
  have len: "Suc k + length ms \<le> length (parts[k := m])" using Cons.prems by simp
  have kl: "k < length parts" using Cons.prems by simp
  show ?case
    unfolding z using Cons.IH[OF len] kl
    by (simp add: take_Suc_conv_app_nth)
qed

lemma pad_fields:
  assumes "length ms \<le> 7"
  shows "foldl (\<lambda>parts (i, m). parts[i := m]) (replicate 7 []) (enumerate_list ms)
         = ms @ replicate (7 - length ms) []"
  using foldl_update_range[of 0 ms "replicate 7 []"] assms
  by (simp add: enumerate_list_def)

lemma parse_v2_eq_v1: "parse_location_string_v2 x = parse_location_string_v1 x"
  by (simp add: parse_location_string_v1_def parse_location_string_v2_def)

lemma parse_v1_eq_spec:
  "parse_location_string_v1 x =
     (if truthy x \<and> isinstance_str x then spec_location_fields (py_str x) else replicate 7 '''')"
  by (simp add: parse_location_string_v1_def spec_location_fields_def Let_def pad_fields
        findall_eq_spec_tokens)

lemma length_spec_location_fields: "length (spec_location_fields s) = 7"
  by (simp add: spec_location_fields_def Let_def)

lemma length_parse_v1: "length (parse_location_string_v1 x) = 7"
  by (simp add: parse_v1_eq_spec length_spec_location_fields)

lemma length_parse_v2: "length (parse_location_string_v2 x) = 7"
  by (simp add: parse_v2_eq_v1 length_parse_v1)

text \<open>
  Claim C1. For every argument of \<^verbatim>\<open>parse_location_string_v1\<close> and of
  \<^verbatim>\<open>parse_location_string_v2\<close> the result has exactly seven strings. The two
  functions agree. For a non-empty string the result is made of the first seven maximal
  runs of characters that are neither whitespace nor underscore of the stripped string, in
  order, followed by empty strings up to seven; for \<^verbatim>\<open>None\<close>, a value that is
  not a string and the empty string it is seven empty strings.
\<close>

theorem location_parser_seven_fields:
  "length (parse_location_string_v1 x) = 7
   \<and> parse_location_string_v2 x = parse_location_string_v1 x
   \<and> parse_location_string_v1 x =
       (if truthy x \<and> isinstance_str x then spec_location_fields (py_str x) else replicate 7 '''')"
  using length_parse_v1[of x] parse_v2_eq_v1[of x] parse_v1_eq_spec[of x] by simp

theorem location_parser_seven_fields_witness:
  "length (parse_location_string_v1 (PyStr '' A_B2 '')) = 7
   \<and> parse_location_string_v2 (PyStr '' A_B2 '') = [''A'', ''B2'', '''', '''', '''', '''', '''']
   \<and> spec_location_fields '' A_B2 '' = [''A'', ''B2'', '''', '''', '''', '''', '''']"
proof -
  have "spec_location_fields '' A_B2 '' = [''A'', ''B2'', '''', '''', '''', '''', '''']"
    by code_simp
  then show ?thesis
    using location_parser_seven_fields[of "PyStr '' A_B2 ''"] by simp
qed

section \<open>Typography of part numbers and descriptions\<close>

text \<open>
  Claim C3. A part number of more than five characters is split at position
  \<open>length - 5\<close>: the prefix has \<open>length - 5\<close> characters and is set at the smaller
  size (17 in v1, 34 in v2), the suffix has exactly five characters and is set at the
  larger size (22 in v1, 40 in v2), and prefix and suffix together are the part number.
  A part number of at most five characters is set whole at the smaller size.
\<close>

theorem part_number_split:
  "(5 < length s \<longrightarrow>
      format_part_no_v1 accepts (PyStr s) =
        Paragraph accepts
          (''<b><font size=17>'' @ take (length s - 5) s @ ''</font><font size=22>''
             @ drop (length s - 5) s @ ''</font></b>'') bold_style_v1
      \<and> format_part_no_v2 accepts (PyStr s) =
        Paragraph accepts
          (''<b><font size=34>'' @ take (length s - 5) s @ ''</font><font size=40>''
             @ drop (length s - 5) s @ ''</font></b><br/><br/>'') bold_style_v2
      \<and> length (take (length s - 5) s) = length s - 5
      \<and> length (drop (length s - 5) s) = 5
      \<and> take (length s - 5) s @ drop (length s - 5) s = s)
   \<and> (length s \<le> 5 \<longrightarrow>
      format_part_no_v1 accepts (PyStr s) =
        Paragraph accepts (''<b><font size=17>'' @ s @ ''</font></b>'') bold_style_v1
      \<and> format_part_no_v2 accepts (PyStr s) =
        Paragraph accepts (''<b><font size=34>'' @ s @ ''</font></b><br/><br/>'') bold_style_v2)"
proof -
  have r: "rebind_str (PyStr s) = s"
    by (simp add: rebind_str_def)
  show ?thesis
    by (simp add: format_part_no_v1_def format_part_no_v2_def r Let_def slice_to_def slice_last_def)
qed

theorem part_number_split_witness:
  "format_part_no_v1 (\<lambda>t. True) (PyStr ''AB12345'') =
     Inr \<lparr>markup = ''<b><font size=17>AB</font><font size=22>12345</font></b>'', pstyle = bold_style_v1\<rparr>
   \<and> format_part_no_v2 (\<lambda>t. True) (PyStr ''AB12345'') =
     Inr \<lparr>markup = ''<b><font size=34>AB</font><font size=40>12345</font></b><br/><br/>'',
          pstyle = bold_style_v2\<rparr>
   \<and> format_part_no_v1 (\<lambda>t. True) (PyStr ''X1'') =
     Inr \<lparr>markup = ''<b><font size=17>X1</font></b>'', pstyle = bold_style_v1\<rparr>
   \<and> format_part_no_v2 (\<lambda>t. True) (PyStr ''X1'') =
     Inr \<lparr>markup = ''<b><font size=34>X1</font></b><br/><br/>'', pstyle = bold_style_v2\<rparr>"
  using part_number_split[of "''AB12345''" "\<lambda>t. True"] part_number_split[of "''X1''" "\<lambda>t. True"]
  by (simp add: Paragraph_def)

text \<open>
  Claim C6. Under v1 the font size of a description follows its length: 15 up to 30
  characters, 13 up to 50, 11 up to 70, 10 up to 90, and 9 beyond. The text is cut to its
  first 100 characters followed by three dots exactly when it has more than 100
  characters, and is unchanged otherwise.
\<close>

theorem description_typography:
  "format_description_v1 accepts (PyStr s) =
     Paragraph accepts (if 100 < length s then take 100 s @ ''...'' else s)
       \<lparr>name = ''Description_v1'', fontName = ''Helvetica'',
        fontSize = description_font_size (length s), alignment = TA_LEFT,
        leading = description_font_size (length s) + 2, spaceBefore = 1, spaceAfter = 1\<rparr>
   \<and> (length s \<le> 30 \<longrightarrow> description_font_size (length s) = 15)
   \<and> (30 < length s \<and> length s \<le> 50 \<longrightarrow> description_font_size (length s) = 13)
   \<and> (50 < length s \<and> length s \<le> 70 \<longrightarrow> description_font_size (length s) = 11)
   \<and> (70 < length s \<and> length s \<le> 90 \<longrightarrow> description_font_size (length s) = 10)
   \<and> (90 < length s \<longrightarrow> description_font_size (length s) = 9)
   \<and> (100 < length s \<longrightarrow> length (take 100 s) = 100)"
proof -
  have r: "rebind_str (PyStr s) = s"
    by (simp add: rebind_str_def)
  have f: "format_description_v1 accepts (PyStr s) =
     Paragraph accepts (if 100 < length s then take 100 s @ ''...'' else s)
       \<lparr>name = ''Description_v1'', fontName = ''Helvetica'',
        fontSize = description_font_size (length s), alignment = TA_LEFT,
        leading = description_font_size (length s) + 2, spaceBefore = 1, spaceAfter = 1\<rparr>"
    unfolding format_description_v1_def r Let_def
    by (simp add: description_font_size_def slice_to_def)
  show ?thesis
    using f by (simp add: description_font_size_def)
qed

theorem description_typography_witness:
  "format_description_v1 (\<lambda>t. True) (PyStr (replicate 101 CHR ''a'')) =
     Inr \<lparr>markup = replicate 100 CHR ''a'' @ ''...'',
          pstyle = \<lparr>name = ''Description_v1'', fontName = ''Helvetica'', fontSize = 9,
                    alignment = TA_LEFT, leading = 11, spaceBefore = 1, spaceAfter = 1\<rparr>\<rparr>
   \<and> format_description_v1 (\<lambda>t. True) (PyStr (replicate 100 CHR ''a'')) =
     Inr \<lparr>markup = replicate 100 CHR ''a'',
          pstyle = \<lparr>name = ''Description_v1'', fontName = ''Helvetica'', fontSize = 9,
                    alignment = TA_LEFT, leading = 11, spaceBefore = 1, spaceAfter = 1\<rparr>\<rparr>
   \<and> description_font_size (length ''Short'') = 15
   \<and> description_font_size (length (replicate 31 CHR ''a'')) = 13
   \<and> description_font_size (length (replicate 51 CHR ''a'')) = 11
   \<and> description_font_size (length (replicate 71 CHR ''a'')) = 10"
  using description_typography[of "\<lambda>t. True" "replicate 101 CHR ''a''"]
        description_typography[of "\<lambda>t. True" "replicate 100 CHR ''a''"]
        description_typography[of "\<lambda>t. True" "''Short''"]
        description_typography[of "\<lambda>t. True" "replicate 31 CHR ''a''"]
        description_typography[of "\<lambda>t. True" "replicate 51 CHR ''a''"]
        description_typography[of "\<lambda>t. True" "replicate 71 CHR ''a''"]
  by (simp add: Paragraph_def)

section \<open>The column resolver follows the three rules\<close>

lemma py_in_nonempty: "py_in (p # ps) c \<Longrightarrow> c \<noteq> []"
  by (cases c) auto

lemma find_holds: "find P xs = Some x \<Longrightarrow> P x"
  by (induction xs) (auto split: if_splits)

lemma if_not_found:
  assumes "find P cols = Some c" and "\<And>x. P x \<Longrightarrow> x \<noteq> []"
  shows "if_not (find P cols) fallback = Inr c"
  using assms find_holds[OF assms(1)] by simp

lemma bind_err_Inr: "bind_err (Inr x) f = f x"
  by (simp add: bind_err_def)

lemma bind_err_Inl: "bind_err (Inl e) f = Inl e"
  by (simp add: bind_err_def)

lemma resolve_part_no:
  assumes "cols \<noteq> []"
  shows "if_not (case find (\<lambda>col. py_in ''PART'' col
                               \<and> (py_in ''NO'' col \<or> py_in ''NUM'' col \<or> py_in ''#'' col)) cols of
               Some col \<Rightarrow> Some col
             | None \<Rightarrow> find (\<lambda>col. col = ''PARTNO'' \<or> col = ''PART'') cols) (first_column cols)
         = Inr (spec_part_number_column cols)"
proof (cases "find (\<lambda>col. py_in ''PART'' col
                               \<and> (py_in ''NO'' col \<or> py_in ''NUM'' col \<or> py_in ''#'' col)) cols")
  case (Some c)
  then have "c \<noteq> []" using find_holds[OF Some] py_in_nonempty by blast
  then show ?thesis using Some by (simp add: spec_part_number_column_def)
next
  case None
  show ?thesis
  proof (cases "find (\<lambda>col. col = ''PARTNO'' \<or> col = ''PART'') cols")
    case (Some c)
    then have "c \<noteq> []" using find_holds[OF Some] by auto
    then show ?thesis using None Some by (simp add: spec_part_number_column_def)
  next
    case n2: None
    then show ?thesis using None assms
      by (cases cols) (simp_all add: spec_part_number_column_def first_column_def)
  qed
qed

lemma resolve_desc:
  "if_not (find (\<lambda>col. py_in ''DESC'' col) cols) (Inr (if length cols > 1 then cols ! 1 else p))
   = Inr (case find (py_in ''DESC'') cols of Some c \<Rightarrow> c
          | None \<Rightarrow> if 2 \<le> length cols then cols ! 1 else p)"
proof (cases "find (py_in ''DESC'') cols")
  case (Some c)
  then have "c \<noteq> []" using find_holds[OF Some] py_in_nonempty by blast
  then show ?thesis using Some by simp
next
  case None
  have "(1 < length cols) = (2 \<le> length cols)" by auto
  then show ?thesis using None by simp
qed

lemma resolve_loc:
  "if_not (find (\<lambda>col. py_in ''LOC'' col \<or> py_in ''POS'' col) cols)
     (Inr (if length cols > 2 then cols ! 2 else d))
   = Inr (case find (\<lambda>c. py_in ''LOC'' c \<or> py_in ''POS'' c) cols of Some c \<Rightarrow> c
          | None \<Rightarrow> if 3 \<le> length cols then cols ! 2 else d)"
proof (cases "find (\<lambda>col. py_in ''LOC'' col \<or> py_in ''POS'' col) cols")
  case (Some c)
  then have "c \<noteq> []" using find_holds[OF Some] py_in_nonempty by blast
  then show ?thesis using Some by simp
next
  case None
  have "(2 < length cols) = (3 \<le> length cols)" by auto
  then show ?thesis using None by simp
qed

text \<open>
  Claim C5, amended. For every non-empty list of upper-cased column names the resolver
  returns the three columns of the specification: the part-number column is the first
  name containing \<^verbatim>\<open>PART\<close> and one of \<^verbatim>\<open>NO\<close>, \<^verbatim>\<open>NUM\<close>, \<^verbatim>\<open>#\<close>, else the
  first name equal to \<^verbatim>\<open>PARTNO\<close> or \<^verbatim>\<open>PART\<close>, else the first name; the
  description column is the first name containing \<^verbatim>\<open>DESC\<close>, else the second name if
  there are two, else the part-number column; the location column is the first name
  containing \<^verbatim>\<open>LOC\<close> or \<^verbatim>\<open>POS\<close>, else the third name if there are three, else the
  description column. No error is raised, also when the three columns are the same.
\<close>

theorem column_resolver:
  assumes "cols \<noteq> []"
  shows "resolve_columns cols =
     Inr (spec_part_number_column cols, spec_description_column cols, spec_location_column cols)"
  unfolding resolve_columns_def Let_def
  by (simp only: resolve_part_no[OF assms] bind_err_Inr resolve_desc resolve_loc
        spec_description_column_def spec_location_column_def)

theorem column_resolver_witness:
  "[''QTY''] \<noteq> [] \<and> resolve_columns [''QTY''] = Inr (''QTY'', ''QTY'', ''QTY'')"
  using column_resolver[of "[''QTY'']"]
  by (simp add: spec_part_number_column_def spec_description_column_def spec_location_column_def)

text \<open>
  The claim as stated covers every set of column names. On a frame with no column the
  positional fallback \<^verbatim>\<open>cols[0]\<close> raises \<^verbatim>\<open>IndexError\<close>, and no column is returned.
\<close>

theorem column_resolver_empty_counterexample:
  "resolve_columns [] = Inl IndexError"
  by (simp add: resolve_columns_def first_column_def bind_err_def)

section \<open>The location strip and its colours\<close>

lemma bind_err_eq_Inr: "(bind_err m f = Inr y) = (\<exists>x. m = Inr x \<and> f x = Inr y)"
  by (cases m) (simp_all add: bind_err_def)

lemma location_style_unfolded:
  "location_style n =
     location_style_base n @
     [(''BACKGROUND'', (1, 0), (1, 0), [AColor (HexColor ''#E9967A'')]),
      (''BACKGROUND'', (2, 0), (2, 0), [AColor (HexColor ''#ADD8E6'')]),
      (''BACKGROUND'', (3, 0), (3, 0), [AColor (HexColor ''#90EE90'')]),
      (''BACKGROUND'', (4, 0), (4, 0), [AColor (HexColor ''#FFD700'')]),
      (''BACKGROUND'', (5, 0), (5, 0), [AColor (HexColor ''#ADD8E6'')]),
      (''BACKGROUND'', (6, 0), (6, 0), [AColor (HexColor ''#E9967A'')]),
      (''BACKGROUND'', (7, 0), (7, 0), [AColor (HexColor ''#90EE90'')])]"
  by (simp add: location_style_def location_colors_def enumerate_list_def upt_conv_Cons
        del: upt_Suc)

lemma strip_backgrounds:
  "map (cell_background (location_table n vals)) [0, 1, 2, 3, 4, 5, 6, 7] =
     [None, Some (HexColor ''#E9967A''), Some (HexColor ''#ADD8E6''), Some (HexColor ''#90EE90''),
      Some (HexColor ''#FFD700''), Some (HexColor ''#ADD8E6''), Some (HexColor ''#E9967A''),
      Some (HexColor ''#90EE90'')]"
  by (simp add: cell_background_def location_table_def location_style_unfolded
        location_style_base_def)

lemma build_block_v1_strip:
  assumes "build_block_v1 str_of accepts cols3 part1 part2 = Inr blk"
  shows "\<exists>vals. length vals = 7 \<and> strips_of blk = [location_table 14 vals]"
proof -
  obtain a b c where c3: "cols3 = (a, b, c)" by (cases cols3) auto
  from assms obtain v where
    "blk ! 3 = TableF (location_table 14 (parse_location_string_v1 (PyStr (str_cell str_of v))))"
    "length blk = 5" "strips_of blk = [location_table 14 (parse_location_string_v1 (PyStr (str_cell str_of v)))]"
    unfolding build_block_v1_def c3
    by (auto simp: bind_err_eq_Inr Let_def part_table_v1_def location_table_def)
  then show ?thesis using length_parse_v1 by blast
qed

lemma build_block_v2_strip:
  assumes "build_block_v2 str_of accepts cols3 part1 = Inr blk"
  shows "\<exists>vals. length vals = 7 \<and> strips_of blk = [location_table 16 vals]"
proof -
  obtain a b c where c3: "cols3 = (a, b, c)" by (cases cols3) auto
  from assms obtain v where
    "strips_of blk = [location_table 16 (parse_location_string_v2 (PyStr (str_cell str_of v)))]"
    unfolding build_block_v2_def c3
    by (auto simp: bind_err_eq_Inr Let_def part_table_v2_def location_table_def)
  then show ?thesis using length_parse_v2 by blast
qed

text \<open>
  Claim C9, amended. Every block built under v1 or v2 has one location strip, with seven
  field cells. Whatever the fields hold, the cells 1 to 7 of a strip have the backgrounds
  salmon \<^verbatim>\<open>#E9967A\<close>, light blue \<^verbatim>\<open>#ADD8E6\<close>, light green \<^verbatim>\<open>#90EE90\<close>, gold
  \<^verbatim>\<open>#FFD700\<close>, light blue, salmon, light green, and the label cell 0 has none. The
  positions 2 and 5 share a colour, and so do the positions 1 and 6 and the positions
  3 and 7.
\<close>

theorem location_strip_palette:
  "(build_block_v1 str_of accepts cols3 part1 part2 = Inr blk \<longrightarrow>
      (\<exists>vals. length vals = 7 \<and> strips_of blk = [location_table 14 vals]))
   \<and> (build_block_v2 str_of accepts cols3 part1 = Inr blk' \<longrightarrow>
      (\<exists>vals. length vals = 7 \<and> strips_of blk' = [location_table 16 vals]))
   \<and> map (cell_background (location_table n vals)) [0, 1, 2, 3, 4, 5, 6, 7] =
       [None, Some (HexColor ''#E9967A''), Some (HexColor ''#ADD8E6''), Some (HexColor ''#90EE90''),
        Some (HexColor ''#FFD700''), Some (HexColor ''#ADD8E6''), Some (HexColor ''#E9967A''),
        Some (HexColor ''#90EE90'')]
   \<and> cell_background (location_table n vals) 2 = cell_background (location_table n vals) 5
   \<and> cell_background (location_table n vals) 1 = cell_background (location_table n vals) 6
   \<and> cell_background (location_table n vals) 3 = cell_background (location_table n vals) 7"
  using build_block_v1_strip[of str_of accepts cols3 part1 part2 blk]
        build_block_v2_strip[of str_of accepts cols3 part1 blk'] strip_backgrounds[of n vals]
  by simp

lemma sample_blocks:
  "build_block_v1 str_text (\<lambda>t. True) sample_cols3 sample_record sample_record2 = Inr sample_block_pair"
  "build_block_v1 str_text (\<lambda>t. True) sample_cols3 sample_record sample_record = Inr sample_block_single"
  "build_block_v2 str_text (\<lambda>t. True) sample_cols3 sample_record = Inr sample_block_v2"
  by code_simp+

theorem location_strip_palette_witness:
  "build_block_v1 str_text (\<lambda>t. True) sample_cols3 sample_record sample_record2 = Inr sample_block_pair
   \<and> build_block_v2 str_text (\<lambda>t. True) sample_cols3 sample_record = Inr sample_block_v2
   \<and> (\<exists>vals. length vals = 7 \<and> strips_of sample_block_pair = [location_table 14 vals])
   \<and> (\<exists>vals. length vals = 7 \<and> strips_of sample_block_v2 = [location_table 16 vals])
   \<and> cell_background (sample_strip 14) 2 = Some (HexColor ''#ADD8E6'')
   \<and> cell_background (sample_strip 14) 5 = Some (HexColor ''#ADD8E6'')"
  using location_strip_palette[of str_text "\<lambda>t. True" sample_cols3 sample_record sample_record2
          sample_block_pair sample_block_v2 14 "[''12M'', ''R'', '''', '''', '''', '''', '''']"]
    sample_blocks
  by (simp add: sample_strip_def)

text \<open>
  The claim as stated has the positions 1 and 5 share a colour. The first field cell is
  salmon and the fifth is light blue.
\<close>

theorem location_strip_positions_1_5_counterexample:
  "cell_background (location_table 14 (replicate 7 '''')) 1 = Some (HexColor ''#E9967A'')
   \<and> cell_background (location_table 14 (replicate 7 '''')) 5 = Some (HexColor ''#ADD8E6'')
   \<and> cell_background (location_table 14 (replicate 7 '''')) 1
       \<noteq> cell_background (location_table 14 (replicate 7 '''')) 5
   \<and> cell_background (location_table 16 (replicate 7 '''')) 1
       \<noteq> cell_background (location_table 16 (replicate 7 '''')) 5"
  using strip_backgrounds[of 14 "replicate 7 ''''"] strip_backgrounds[of 16 "replicate 7 ''''"]
  by simp

section \<open>The generators upper-case the column names of the frame\<close>

lemma frame_generate_labels:
  "frame (generate_labels upper body progress_bar status_text df)
     = df\<lparr>columns := map upper (columns df)\<rparr>"
  by (simp add: generate_labels_def Let_def split: sum.splits prod.splits)

lemma generate_labels_on_upper_cased:
  "generate_labels upper body progress_bar status_text df
   = generate_labels (\<lambda>col. col) body progress_bar status_text
       (df\<lparr>columns := map upper (columns df)\<rparr>)"
  by (simp add: generate_labels_def)

lemma frame_changed_iff:
  "(df\<lparr>columns := cols\<rparr> = df) = (cols = columns df)"
proof
  assume "df\<lparr>columns := cols\<rparr> = df"
  then have "columns (df\<lparr>columns := cols\<rparr>) = columns df" by simp
  then show "cols = columns df" by simp
next
  assume "cols = columns df"
  then show "df\<lparr>columns := cols\<rparr> = df" by simp
qed

text \<open>
  Claim C10, amended. A run of either generator replaces the column names of the
  caller's frame by their upper-cased forms and leaves the rows as they are; the frame
  stays so after the run, whether it returns or raises. The replacement comes before the
  column search: the run is the run, without upper-casing, on the frame with the
  upper-cased names. The frame after the run is the frame passed in exactly when every
  column name is its own upper-cased form.
\<close>

theorem generators_upper_case_the_columns:
  "frame (generate_labels_from_excel_v1 upper str_of accepts progress_bar status_text df)
     = df\<lparr>columns := map upper (columns df)\<rparr>
   \<and> frame (generate_labels_from_excel_v2 upper str_of accepts progress_bar status_text df)
     = df\<lparr>columns := map upper (columns df)\<rparr>
   \<and> generate_labels_from_excel_v1 upper str_of accepts progress_bar status_text df
     = generate_labels_from_excel_v1 (\<lambda>col. col) str_of accepts progress_bar status_text
         (df\<lparr>columns := map upper (columns df)\<rparr>)
   \<and> generate_labels_from_excel_v2 upper str_of accepts progress_bar status_text df
     = generate_labels_from_excel_v2 (\<lambda>col. col) str_of accepts progress_bar status_text
         (df\<lparr>columns := map upper (columns df)\<rparr>)
   \<and> (frame (generate_labels_from_excel_v1 upper str_of accepts progress_bar status_text df) = df)
       = (map upper (columns df) = columns df)
   \<and> (frame (generate_labels_from_excel_v2 upper str_of accepts progress_bar status_text df) = df)
       = (map upper (columns df) = columns df)"
proof -
  have a: "generate_labels_from_excel_v1 upper str_of accepts progress_bar status_text df
     = generate_labels_from_excel_v1 (\<lambda>col. col) str_of accepts progress_bar status_text
         (df\<lparr>columns := map upper (columns df)\<rparr>)"
    unfolding generate_labels_from_excel_v1_def by (rule generate_labels_on_upper_cased)
  have b: "generate_labels_from_excel_v2 upper str_of accepts progress_bar status_text df
     = generate_labels_from_excel_v2 (\<lambda>col. col) str_of accepts progress_bar status_text
         (df\<lparr>columns := map upper (columns df)\<rparr>)"
    unfolding generate_labels_from_excel_v2_def by (rule generate_labels_on_upper_cased)
  have c: "frame (generate_labels_from_excel_v1 upper str_of accepts progress_bar status_text df)
     = df\<lparr>columns := map upper (columns df)\<rparr>"
    unfolding generate_labels_from_excel_v1_def by (rule frame_generate_labels)
  have d: "frame (generate_labels_from_excel_v2 upper str_of accepts progress_bar status_text df)
     = df\<lparr>columns := map upper (columns df)\<rparr>"
    unfolding generate_labels_from_excel_v2_def by (rule frame_generate_labels)
  have e: "(frame (generate_labels_from_excel_v1 upper str_of accepts progress_bar status_text df) = df)
       = (map upper (columns df) = columns df)"
    unfolding c by (rule frame_changed_iff)
  have f: "(frame (generate_labels_from_excel_v2 upper str_of accepts progress_bar status_text df) = df)
       = (map upper (columns df) = columns df)"
    unfolding d by (rule frame_changed_iff)
  show ?thesis
    by (rule conjI[OF c conjI[OF d conjI[OF a conjI[OF b conjI[OF e f]]]]])
qed

lemma ascii_upper_samples:
  "ascii_upper ''Part No'' = ''PART NO''" "ascii_upper ''Desc'' = ''DESC''"
  "ascii_upper ''Loc'' = ''LOC''" "ascii_upper ''PART NO'' = ''PART NO''"
  "ascii_upper ''DESC'' = ''DESC''" "ascii_upper ''LOC'' = ''LOC''"
  by code_simp+

theorem generators_upper_case_the_columns_witness:
  "frame (generate_labels_from_excel_v1 ascii_upper str_text (\<lambda>t. True) True True unsorted_frame)
     = unsorted_frame\<lparr>columns := [''PART NO'', ''DESC'', ''LOC'']\<rparr>
   \<and> frame (generate_labels_from_excel_v2 ascii_upper str_text (\<lambda>t. True) True True unsorted_frame)
     = unsorted_frame\<lparr>columns := [''PART NO'', ''DESC'', ''LOC'']\<rparr>
   \<and> frame (generate_labels_from_excel_v1 ascii_upper str_text (\<lambda>t. True) True True unsorted_frame)
     \<noteq> unsorted_frame
   \<and> frame (generate_labels_from_excel_v2 ascii_upper str_text (\<lambda>t. True) True True unsorted_frame)
     \<noteq> unsorted_frame"
proof -
  have cols: "columns unsorted_frame = [''Part No'', ''Desc'', ''Loc'']"
    by (simp add: unsorted_frame_def frame_of_def)
  have up: "map ascii_upper (columns unsorted_frame) = [''PART NO'', ''DESC'', ''LOC'']"
    by (simp add: cols ascii_upper_samples)
  have ne: "map ascii_upper (columns unsorted_frame) \<noteq> columns unsorted_frame"
    by (simp add: cols ascii_upper_samples)
  note t = generators_upper_case_the_columns[of ascii_upper str_text "\<lambda>t. True" True True
             unsorted_frame]
  from t have f1: "frame (generate_labels_from_excel_v1 ascii_upper str_text (\<lambda>t. True) True True
                      unsorted_frame) = unsorted_frame\<lparr>columns := [''PART NO'', ''DESC'', ''LOC'']\<rparr>"
    unfolding up by blast
  from t have f2: "frame (generate_labels_from_excel_v2 ascii_upper str_text (\<lambda>t. True) True True
                      unsorted_frame) = unsorted_frame\<lparr>columns := [''PART NO'', ''DESC'', ''LOC'']\<rparr>"
    unfolding up by blast
  from t ne have n1: "frame (generate_labels_from_excel_v1 ascii_upper str_text (\<lambda>t. True) True True
                      unsorted_frame) \<noteq> unsorted_frame"
    by blast
  from t ne have n2: "frame (generate_labels_from_excel_v2 ascii_upper str_text (\<lambda>t. True) True True
                      unsorted_frame) \<noteq> unsorted_frame"
    by blast
  from f1 f2 n1 n2 show ?thesis by blast
qed

text \<open>
  The claim as stated has every input changed by the run. On the frame whose column
  names are \<^verbatim>\<open>PART NO\<close>, \<^verbatim>\<open>DESC\<close>, \<^verbatim>\<open>LOC\<close> the names assigned are the names
  it had, and the frame after the run of either generator is the frame passed in.
\<close>

theorem upper_case_frame_unchanged_counterexample:
  "frame (generate_labels_from_excel_v1 ascii_upper str_text (\<lambda>t. True) True True upper_case_frame)
     = upper_case_frame
   \<and> frame (generate_labels_from_excel_v2 ascii_upper str_text (\<lambda>t. True) True True upper_case_frame)
     = upper_case_frame"
proof -
  have up: "map ascii_upper (columns upper_case_frame) = columns upper_case_frame"
    by (simp add: upper_case_frame_def ascii_upper_samples)
  show ?thesis
    unfolding generate_labels_from_excel_v1_def generate_labels_from_excel_v2_def
      frame_generate_labels up
    by simp
qed

section \<open>The records of a block under v1\<close>

lemma elements_emit: "elements (emit present ev st) = elements st"
  by (simp add: emit_def)


lemma process_group_v1_alt:
  "process_group_v1 str_of accepts progress_bar status_text cols3 total_locations st (i, location, rs) =
     (let st2 = emit status_text (StatusProcessing (i + 1) total_locations location)
                  (emit progress_bar (Progress i total_locations) st)
      in case block_of_group_v1 str_of accepts cols3 rs of
           None \<Rightarrow> st2
         | Some built \<Rightarrow> place_block status_text location built st2)"
proof (cases rs)
  case Nil
  then show ?thesis by (simp add: process_group_v1_def block_of_group_v1_def)
next
  case (Cons r1 rs')
  show ?thesis
  proof (cases rs')
    case Nil
    then show ?thesis using Cons by (simp add: process_group_v1_def block_of_group_v1_def Let_def)
  next
    case c2: (Cons r2 rest)
    then show ?thesis using Cons by (simp add: process_group_v1_def block_of_group_v1_def Let_def)
  qed
qed

lemma process_group_v2_alt:
  "process_group_v2 str_of accepts progress_bar status_text cols3 total_locations st (i, location, rs) =
     (let st2 = emit status_text (StatusProcessing (i + 1) total_locations location)
                  (emit progress_bar (Progress i total_locations) st)
      in case block_of_group_v2 str_of accepts cols3 rs of
           None \<Rightarrow> st2
         | Some built \<Rightarrow> place_block status_text location built st2)"
proof (cases rs)
  case Nil
  then show ?thesis by (simp add: process_group_v2_def block_of_group_v2_def)
next
  case (Cons r1 rs')
  show ?thesis
  proof (cases rs')
    case Nil
    then show ?thesis using Cons by (simp add: process_group_v2_def block_of_group_v2_def Let_def)
  next
    case c2: (Cons r2 rest)
    then show ?thesis using Cons by (simp add: process_group_v2_def block_of_group_v2_def Let_def)
  qed
qed





section \<open>The order of the groups\<close>

lemma processing_order_append:
  "processing_order (xs @ ys) = processing_order xs @ processing_order ys"
  by (induction xs rule: processing_order.induct) simp_all

lemma strips_of_append: "strips_of (xs @ ys) = strips_of xs @ strips_of ys"
  by (induction xs rule: strips_of.induct) simp_all

lemma order_place_block:
  "processing_order (events (place_block status_text location built st)) = processing_order (events st)"
  by (cases built) (simp_all add: place_block_def Let_def emit_def processing_order_append)

lemma strips_place_block:
  "strips_of (elements (place_block status_text location built st)) =
     strips_of (elements st) @ (case built of Inr blk \<Rightarrow> strips_of blk | Inl e \<Rightarrow> [])"
  by (cases built) (simp_all add: place_block_def Let_def emit_def strips_of_append)

lemma order_step_v1:
  "processing_order (events (process_group_v1 str_of accepts progress_bar True cols3 total_locations st
      (i, location, rs))) = processing_order (events st) @ [location]"
  by (simp add: process_group_v1_alt Let_def order_place_block emit_def processing_order_append
        split: option.splits)

lemma order_step_v2:
  "processing_order (events (process_group_v2 str_of accepts progress_bar True cols3 total_locations st
      (i, location, rs))) = processing_order (events st) @ [location]"
  by (simp add: process_group_v2_alt Let_def order_place_block emit_def processing_order_append
        split: option.splits)

lemma strips_step_v1:
  "strips_of (elements (process_group_v1 str_of accepts progress_bar status_text cols3 total_locations st
      (i, location, rs))) =
   strips_of (elements st) @
     (case block_of_group_v1 str_of accepts cols3 rs of Some (Inr blk) \<Rightarrow> strips_of blk | _ \<Rightarrow> [])"
  by (simp add: process_group_v1_alt Let_def strips_place_block elements_emit
        split: option.splits sum.splits)

lemma strips_step_v2:
  "strips_of (elements (process_group_v2 str_of accepts progress_bar status_text cols3 total_locations st
      (i, location, rs))) =
   strips_of (elements st) @
     (case block_of_group_v2 str_of accepts cols3 rs of Some (Inr blk) \<Rightarrow> strips_of blk | _ \<Rightarrow> [])"
  by (simp add: process_group_v2_alt Let_def strips_place_block elements_emit
        split: option.splits sum.splits)

lemma order_loop:
  assumes "\<And>st i location rs. processing_order (events (body st (i, location, rs)))
             = processing_order (events st) @ [location]"
  shows "processing_order (events (foldl body st items))
         = processing_order (events st) @ map (\<lambda>(i, location, rs). location) items"
proof (induction items arbitrary: st)
  case Nil
  show ?case by simp
next
  case (Cons item items)
  obtain i location rs where it: "item = (i, location, rs)" by (cases item) auto
  show ?case by (simp add: Cons.IH it assms)
qed

lemma strips_loop:
  assumes "\<And>st i location rs. strips_of (elements (body st (i, location, rs)))
             = strips_of (elements st) @ g (location, rs)"
  shows "strips_of (elements (foldl body st items))
         = strips_of (elements st) @ concat (map (\<lambda>(i, item). g item) items)"
proof (induction items arbitrary: st)
  case Nil
  show ?case by simp
next
  case (Cons item items)
  obtain i location rs where it: "item = (i, location, rs)" by (cases item) auto
  show ?case by (simp add: Cons.IH it assms)
qed

lemma map_enumerate_snd: "map (\<lambda>(i, item). f item) (enumerate_list xs) = map f xs"
proof -
  have "map (\<lambda>(i, item). f item) (enumerate_list xs) = map f (map snd (enumerate_list xs))"
    by (simp add: case_prod_beta comp_def)
  then show ?thesis by (simp add: enumerate_list_def)
qed

lemma order_run_groups:
  assumes "\<And>st i location rs. processing_order (events (body st (i, location, rs)))
             = processing_order (events st) @ [location]"
  shows "processing_order (events (run_groups body st df_grouped))
         = processing_order (events st) @ map fst df_grouped"
proof -
  have "map (\<lambda>(i, location, rs). location) (enumerate_list df_grouped)
        = map (\<lambda>(i, item). fst item) (enumerate_list df_grouped)"
    by (simp add: case_prod_beta)
  then show ?thesis
    unfolding run_groups_def order_loop[of body, OF assms] by (simp add: map_enumerate_snd)
qed

lemma strips_run_groups:
  assumes "\<And>st i location rs. strips_of (elements (body st (i, location, rs)))
             = strips_of (elements st) @ g (location, rs)"
  shows "strips_of (elements (run_groups body st df_grouped))
         = strips_of (elements st) @ concat (map g df_grouped)"
  unfolding run_groups_def strips_loop[of body g, OF assms] by (simp add: map_enumerate_snd)

lemma order_finish:
  "processing_order (snd (finish progress_bar status_text st)) = processing_order (events st)"
  by (simp add: finish_def Let_def emit_def processing_order_append)

lemma document_finish:
  "(case fst (finish progress_bar status_text st) of Some els \<Rightarrow> els | None \<Rightarrow> []) = elements st"
  by (simp add: finish_def Let_def emit_def)

lemma generate_labels_resolved:
  assumes "resolve_columns (map upper (columns df)) = Inr (p, d, l)"
      and "groupby (df\<lparr>columns := map upper (columns df)\<rparr>) l = Inr df_grouped"
  shows "shown (generate_labels upper body progress_bar status_text df) =
           snd (finish progress_bar status_text
                  (run_groups (body (p, d, l) (length df_grouped))
                     (emit status_text (StatusColumns p d l) empty_state) df_grouped))"
    and "document_of (generate_labels upper body progress_bar status_text df) =
           elements (run_groups (body (p, d, l) (length df_grouped))
                     (emit status_text (StatusColumns p d l) empty_state) df_grouped)"
  using assms document_finish[of progress_bar status_text
      "run_groups (body (p, d, l) (length df_grouped))
                     (emit status_text (StatusColumns p d l) empty_state) df_grouped"]
  by (simp_all add: generate_labels_def Let_def empty_state_def document_of_def case_prod_beta)

lemma groupby_keys:
  assumes "groupby df l = Inr df_grouped"
  shows "map fst df_grouped = sort (remdups (location_column_values df l))"
    and "\<forall>(k, rs) \<in> set df_grouped.
           rs = filter (\<lambda>r. group_key l r = Some k) (map (zip (columns df)) (rows df))"
  using assms
  by (auto simp: groupby_def Let_def location_column_values_def comp_def split: if_splits)

lemma concat_map_filter:
  "(\<And>x. x \<in> set xs \<Longrightarrow> g x = (if P x then [f x] else [])) \<Longrightarrow>
   concat (map g xs) = map f (filter P xs)"
  by (induction xs) simp_all

lemma series_get_key:
  assumes "group_key l r = Some k" and "series_get r l = Inr v"
  shows "str_cell str_of v = str_of k"
  using assms by (auto simp: group_key_def series_get_def str_cell_def split: option.splits)

lemma build_block_v1_strip_key:
  assumes "build_block_v1 str_of accepts (p, d, l) r1 r2 = Inr blk" and "group_key l r1 = Some k"
  shows "strips_of blk = [location_table 14 (parse_location_string_v1 (PyStr (str_of k)))]"
  using assms unfolding build_block_v1_def
  by (auto simp: bind_err_eq_Inr Let_def part_table_v1_def location_table_def
           dest!: series_get_key[of l r1 k _ str_of])

lemma build_block_v2_strip_key:
  assumes "build_block_v2 str_of accepts (p, d, l) r1 = Inr blk" and "group_key l r1 = Some k"
  shows "strips_of blk = [location_table 16 (parse_location_string_v2 (PyStr (str_of k)))]"
  using assms unfolding build_block_v2_def
  by (auto simp: bind_err_eq_Inr Let_def part_table_v2_def location_table_def
           dest!: series_get_key[of l r1 k _ str_of])

lemma group_strip_v1:
  assumes "\<forall>r \<in> set rs. group_key l r = Some k"
  shows "(case block_of_group_v1 str_of accepts (p, d, l) rs of Some (Inr blk) \<Rightarrow> strips_of blk | _ \<Rightarrow> [])
         = (if is_built (block_of_group_v1 str_of accepts (p, d, l) rs)
            then [location_table 14 (parse_location_string_v1 (PyStr (str_of k)))] else [])"
proof (cases "block_of_group_v1 str_of accepts (p, d, l) rs")
  case None
  then show ?thesis by (simp add: is_built_def)
next
  case (Some b)
  show ?thesis
  proof (cases b)
    case (Inl e)
    then show ?thesis using Some by (simp add: is_built_def)
  next
    case (Inr blk)
    from Some Inr obtain r1 r2 where bb: "build_block_v1 str_of accepts (p, d, l) r1 r2 = Inr blk"
      and mem: "r1 \<in> set rs"
      by (auto simp: block_of_group_v1_def split: list.splits)
    from assms mem have gk: "group_key l r1 = Some k" by blast
    have "strips_of blk = [location_table 14 (parse_location_string_v1 (PyStr (str_of k)))]"
      by (rule build_block_v1_strip_key[OF bb gk])
    then show ?thesis using Some Inr by (simp add: is_built_def)
  qed
qed

lemma group_strip_v2:
  assumes "\<forall>r \<in> set rs. group_key l r = Some k"
  shows "(case block_of_group_v2 str_of accepts (p, d, l) rs of Some (Inr blk) \<Rightarrow> strips_of blk | _ \<Rightarrow> [])
         = (if is_built (block_of_group_v2 str_of accepts (p, d, l) rs)
            then [location_table 16 (parse_location_string_v2 (PyStr (str_of k)))] else [])"
proof (cases "block_of_group_v2 str_of accepts (p, d, l) rs")
  case None
  then show ?thesis by (simp add: is_built_def)
next
  case (Some b)
  show ?thesis
  proof (cases b)
    case (Inl e)
    then show ?thesis using Some by (simp add: is_built_def)
  next
    case (Inr blk)
    from Some Inr obtain r1 where bb: "build_block_v2 str_of accepts (p, d, l) r1 = Inr blk"
      and mem: "r1 \<in> set rs"
      by (auto simp: block_of_group_v2_def split: list.splits)
    from assms mem have gk: "group_key l r1 = Some k" by blast
    have "strips_of blk = [location_table 16 (parse_location_string_v2 (PyStr (str_of k)))]"
      by (rule build_block_v2_strip_key[OF bb gk])
    then show ?thesis using Some Inr by (simp add: is_built_def)
  qed
qed

lemma groupby_rows_have_key:
  assumes "groupby df l = Inr df_grouped" and "(k, rs) \<in> set df_grouped"
  shows "\<forall>r \<in> set rs. group_key l r = Some k"
  using groupby_keys(2)[OF assms(1)] assms(2) by auto

lemma strips_generate_v1:
  assumes r: "resolve_columns (map upper (columns df)) = Inr (p, d, l)"
      and g: "groupby (df\<lparr>columns := map upper (columns df)\<rparr>) l = Inr df_grouped"
  shows "strips_of (document_of (generate_labels_from_excel_v1 upper str_of accepts progress_bar status_text df))
         = map (\<lambda>(k, rs). location_table 14 (parse_location_string_v1 (PyStr (str_of k))))
             (filter (\<lambda>(k, rs). is_built (block_of_group_v1 str_of accepts (p, d, l) rs)) df_grouped)"
proof -
  have "concat (map (\<lambda>(k, rs). (case block_of_group_v1 str_of accepts (p, d, l) rs of
                                  Some (Inr blk) \<Rightarrow> strips_of blk | _ \<Rightarrow> [])) df_grouped)
        = map (\<lambda>(k, rs). location_table 14 (parse_location_string_v1 (PyStr (str_of k))))
             (filter (\<lambda>(k, rs). is_built (block_of_group_v1 str_of accepts (p, d, l) rs)) df_grouped)"
  proof (rule concat_map_filter)
    fix x assume x: "x \<in> set df_grouped"
    obtain k rs where kr: "x = (k, rs)" by (cases x) auto
    show "(case x of (k, rs) \<Rightarrow> (case block_of_group_v1 str_of accepts (p, d, l) rs of
                                  Some (Inr blk) \<Rightarrow> strips_of blk | _ \<Rightarrow> []))
          = (if (case x of (k, rs) \<Rightarrow> is_built (block_of_group_v1 str_of accepts (p, d, l) rs))
             then [case x of (k, rs) \<Rightarrow> location_table 14 (parse_location_string_v1 (PyStr (str_of k)))]
             else [])"
      using group_strip_v1[OF groupby_rows_have_key[OF g x[unfolded kr]], of str_of accepts p d]
      by (simp add: kr)
  qed
  then show ?thesis
    unfolding generate_labels_from_excel_v1_def generate_labels_resolved(2)[OF r g]
    by (simp add: strips_run_groups[where g = "\<lambda>(k, rs). (case block_of_group_v1 str_of accepts (p, d, l) rs of
                                  Some (Inr blk) \<Rightarrow> strips_of blk | _ \<Rightarrow> [])"]
          strips_step_v1 elements_emit empty_state_def)
qed

lemma strips_generate_v2:
  assumes r: "resolve_columns (map upper (columns df)) = Inr (p, d, l)"
      and g: "groupby (df\<lparr>columns := map upper (columns df)\<rparr>) l = Inr df_grouped"
  shows "strips_of (document_of (generate_labels_from_excel_v2 upper str_of accepts progress_bar status_text df))
         = map (\<lambda>(k, rs). location_table 16 (parse_location_string_v2 (PyStr (str_of k))))
             (filter (\<lambda>(k, rs). is_built (block_of_group_v2 str_of accepts (p, d, l) rs)) df_grouped)"
proof -
  have "concat (map (\<lambda>(k, rs). (case block_of_group_v2 str_of accepts (p, d, l) rs of
                                  Some (Inr blk) \<Rightarrow> strips_of blk | _ \<Rightarrow> [])) df_grouped)
        = map (\<lambda>(k, rs). location_table 16 (parse_location_string_v2 (PyStr (str_of k))))
             (filter (\<lambda>(k, rs). is_built (block_of_group_v2 str_of accepts (p, d, l) rs)) df_grouped)"
  proof (rule concat_map_filter)
    fix x assume x: "x \<in> set df_grouped"
    obtain k rs where kr: "x = (k, rs)" by (cases x) auto
    show "(case x of (k, rs) \<Rightarrow> (case block_of_group_v2 str_of accepts (p, d, l) rs of
                                  Some (Inr blk) \<Rightarrow> strips_of blk | _ \<Rightarrow> []))
          = (if (case x of (k, rs) \<Rightarrow> is_built (block_of_group_v2 str_of accepts (p, d, l) rs))
             then [case x of (k, rs) \<Rightarrow> location_table 16 (parse_location_string_v2 (PyStr (str_of k)))]
             else [])"
      using group_strip_v2[OF groupby_rows_have_key[OF g x[unfolded kr]], of str_of accepts p d]
      by (simp add: kr)
  qed
  then show ?thesis
    unfolding generate_labels_from_excel_v2_def generate_labels_resolved(2)[OF r g]
    by (simp add: strips_run_groups[where g = "\<lambda>(k, rs). (case block_of_group_v2 str_of accepts (p, d, l) rs of
                                  Some (Inr blk) \<Rightarrow> strips_of blk | _ \<Rightarrow> [])"]
          strips_step_v2 elements_emit empty_state_def)
qed

lemma order_generate_v1:
  assumes r: "resolve_columns (map upper (columns df)) = Inr (p, d, l)"
      and g: "groupby (df\<lparr>columns := map upper (columns df)\<rparr>) l = Inr df_grouped"
  shows "processing_order (shown (generate_labels_from_excel_v1 upper str_of accepts progress_bar True df))
         = map fst df_grouped"
  unfolding generate_labels_from_excel_v1_def generate_labels_resolved(1)[OF r g] order_finish
  by (simp add: order_run_groups order_step_v1 emit_def empty_state_def)

lemma order_generate_v2:
  assumes r: "resolve_columns (map upper (columns df)) = Inr (p, d, l)"
      and g: "groupby (df\<lparr>columns := map upper (columns df)\<rparr>) l = Inr df_grouped"
  shows "processing_order (shown (generate_labels_from_excel_v2 upper str_of accepts progress_bar True df))
         = map fst df_grouped"
  unfolding generate_labels_from_excel_v2_def generate_labels_resolved(1)[OF r g] order_finish
  by (simp add: order_run_groups order_step_v2 emit_def empty_state_def)

text \<open>
  Claim C8, amended. The groups are formed by equality of the raw value of the resolved
  location column: each group holds the rows of the frame with that value, in the order
  of the frame. The loop visits the groups in ascending order of the location values
  (the order of \<^verbatim>\<open>groupby\<close>, which sorts the keys: by code points for texts, by
  value for numbers), each value once, and not in the order in which the values first
  appear. The location strips of the document follow that order: they are the strips of
  the groups whose block was built.
\<close>

theorem groups_come_in_key_order:
  assumes "resolve_columns (map upper (columns df)) = Inr (p, d, l)"
      and "groupby (df\<lparr>columns := map upper (columns df)\<rparr>) l = Inr df_grouped"
  shows "map fst df_grouped
           = sort (remdups (location_column_values (df\<lparr>columns := map upper (columns df)\<rparr>) l))
     \<and> (\<forall>(k, rs) \<in> set df_grouped.
           rs = filter (\<lambda>r. group_key l r = Some k)
                  (map (zip (map upper (columns df))) (rows df)))
     \<and> processing_order (shown (generate_labels_from_excel_v1 upper str_of accepts progress_bar True df))
           = map fst df_grouped
     \<and> processing_order (shown (generate_labels_from_excel_v2 upper str_of accepts progress_bar True df))
           = map fst df_grouped
     \<and> strips_of (document_of (generate_labels_from_excel_v1 upper str_of accepts progress_bar status_text df))
           = map (\<lambda>(k, rs). location_table 14 (parse_location_string_v1 (PyStr (str_of k))))
               (filter (\<lambda>(k, rs). is_built (block_of_group_v1 str_of accepts (p, d, l) rs)) df_grouped)
     \<and> strips_of (document_of (generate_labels_from_excel_v2 upper str_of accepts progress_bar status_text df))
           = map (\<lambda>(k, rs). location_table 16 (parse_location_string_v2 (PyStr (str_of k))))
               (filter (\<lambda>(k, rs). is_built (block_of_group_v2 str_of accepts (p, d, l) rs)) df_grouped)"
  using groupby_keys[OF assms(2)] order_generate_v1[OF assms] order_generate_v2[OF assms]
    strips_generate_v1[OF assms] strips_generate_v2[OF assms]
  by simp

lemma unsorted_frame_groups:
  "resolve_columns (map ascii_upper (columns unsorted_frame)) = Inr (''PART NO'', ''DESC'', ''LOC'')"
  "groupby (unsorted_frame\<lparr>columns := map ascii_upper (columns unsorted_frame)\<rparr>) ''LOC'' =
     Inr [(''A'', [[(''PART NO'', Some ''P1''), (''DESC'', Some ''ok''), (''LOC'', Some ''A'')]]),
          (''B'', [[(''PART NO'', Some ''P1''), (''DESC'', Some ''ok''), (''LOC'', Some ''B'')]])]"
  by code_simp+

lemma numeric_frame_groups:
  "resolve_columns (map ascii_upper (columns numeric_frame)) = Inr (''PART NO'', ''DESC'', ''LOC'')"
  "groupby (numeric_frame\<lparr>columns := map ascii_upper (columns numeric_frame)\<rparr>) ''LOC'' =
     Inr [(9, [[(''PART NO'', Some 102), (''DESC'', Some 5), (''LOC'', Some 9)]]),
          (10, [[(''PART NO'', Some 101), (''DESC'', Some 5), (''LOC'', Some 10)]])]"
  by code_simp+

theorem groups_come_in_key_order_witness:
  "resolve_columns (map ascii_upper (columns unsorted_frame)) = Inr (''PART NO'', ''DESC'', ''LOC'')
   \<and> groupby (unsorted_frame\<lparr>columns := map ascii_upper (columns unsorted_frame)\<rparr>) ''LOC'' =
     Inr [(''A'', [[(''PART NO'', Some ''P1''), (''DESC'', Some ''ok''), (''LOC'', Some ''A'')]]),
          (''B'', [[(''PART NO'', Some ''P1''), (''DESC'', Some ''ok''), (''LOC'', Some ''B'')]])]
   \<and> processing_order (shown (generate_labels_from_excel_v1 ascii_upper str_text (\<lambda>t. True) False True
                               unsorted_frame))
       = [''A'', ''B'']
   \<and> processing_order (shown (generate_labels_from_excel_v2 ascii_upper str_text (\<lambda>t. True) False True
                               unsorted_frame))
       = [''A'', ''B'']
   \<and> resolve_columns (map ascii_upper (columns numeric_frame)) = Inr (''PART NO'', ''DESC'', ''LOC'')
   \<and> groupby (numeric_frame\<lparr>columns := map ascii_upper (columns numeric_frame)\<rparr>) ''LOC'' =
     Inr [(9, [[(''PART NO'', Some 102), (''DESC'', Some 5), (''LOC'', Some 9)]]),
          (10, [[(''PART NO'', Some 101), (''DESC'', Some 5), (''LOC'', Some 10)]])]
   \<and> processing_order (shown (generate_labels_from_excel_v1 ascii_upper str_int (\<lambda>t. True) False True
                               numeric_frame))
       = [9, 10]
   \<and> processing_order (shown (generate_labels_from_excel_v2 ascii_upper str_int (\<lambda>t. True) False True
                               numeric_frame))
       = [9, 10]"
  using groups_come_in_key_order[OF unsorted_frame_groups,
          where str_of = str_text and accepts = "\<lambda>t. True" and progress_bar = False]
    groups_come_in_key_order[OF numeric_frame_groups,
          where str_of = str_int and accepts = "\<lambda>t. True" and progress_bar = False]
    unsorted_frame_groups numeric_frame_groups
  by simp

text \<open>
  The claim as stated has the groups in the order in which the location values first
  appear. On the frame whose rows have the locations \<^verbatim>\<open>B\<close> then \<^verbatim>\<open>A\<close>, both
  generators process \<^verbatim>\<open>A\<close> first, and the strip of \<^verbatim>\<open>A\<close> comes first in the
  document.
\<close>

theorem groups_first_appearance_counterexample:
  "location_column_values (unsorted_frame\<lparr>columns := map ascii_upper (columns unsorted_frame)\<rparr>) ''LOC''
     = [''B'', ''A'']
   \<and> processing_order (shown (generate_labels_from_excel_v1 ascii_upper str_text (\<lambda>t. True) False True unsorted_frame))
     = [''A'', ''B'']
   \<and> processing_order (shown (generate_labels_from_excel_v2 ascii_upper str_text (\<lambda>t. True) False True unsorted_frame))
     = [''A'', ''B'']
   \<and> strips_of (document_of (generate_labels_from_excel_v1 ascii_upper str_text (\<lambda>t. True) False True unsorted_frame))
     = [location_table 14 [''A'', '''', '''', '''', '''', '''', ''''],
        location_table 14 [''B'', '''', '''', '''', '''', '''', '''']]"
  by code_simp

section \<open>Page breaks and failed groups\<close>

text \<open>
  Claim C2. The page break is inserted when \<^verbatim>\<open>label_count\<close> is a positive multiple of
  4, and \<^verbatim>\<open>label_count\<close> is incremented before the block is built, so a group whose
  block fails to build is counted although no block is placed. On five groups of which
  the first fails, the page break comes before the fourth placed block and the pages
  hold 3 and 1 blocks, under both variants. With nine groups that all build, the pages
  hold 4, 4 and 1 blocks.
\<close>

theorem page_break_counts_failed_groups:
  "block_counts (document_of (generate_labels_from_excel_v1 ascii_upper str_text accepts_but_unclosed_bold False False one_bad_group))
     = [3, 1]
   \<and> block_counts (document_of (generate_labels_from_excel_v2 ascii_upper str_text accepts_but_unclosed_bold False False one_bad_group))
     = [3, 1]"
  by code_simp

lemma nine_groups_three_pages:
  "block_counts (document_of (generate_labels_from_excel_v1 ascii_upper str_text (\<lambda>t. True) False False nine_groups))
     = [4, 4, 1]"
  by code_simp

text \<open>
  Claim C7. A group whose block fails to build adds no block, its error is shown by
  \<^verbatim>\<open>status_text\<close> and the loop goes on; but the page break and the increment of
  \<^verbatim>\<open>label_count\<close> come before the building. On five groups that all fail, the fifth
  iteration appends a page break, the elements are not empty and the generator builds a
  document instead of returning \<^verbatim>\<open>None\<close>, under both variants.
\<close>

theorem all_groups_fail_yet_document:
  "outcome (generate_labels_from_excel_v1 ascii_upper str_text accepts_but_unclosed_bold False True all_bad_groups)
     = Inr (Some [PageBreak])
   \<and> outcome (generate_labels_from_excel_v2 ascii_upper str_text accepts_but_unclosed_bold False True all_bad_groups)
     = Inr (Some [PageBreak])
   \<and> shown (generate_labels_from_excel_v1 ascii_upper str_text accepts_but_unclosed_bold False True all_bad_groups)
     = [StatusColumns ''PART NO'' ''DESC'' ''LOC'',
        StatusProcessing 1 5 ''A'', StatusError ''A'' ValueError,
        StatusProcessing 2 5 ''B'', StatusError ''B'' ValueError,
        StatusProcessing 3 5 ''C'', StatusError ''C'' ValueError,
        StatusProcessing 4 5 ''D'', StatusError ''D'' ValueError,
        StatusProcessing 5 5 ''E'', StatusError ''E'' ValueError,
        StatusBuilding]"
  by code_simp

lemma failed_group_is_skipped:
  assumes "block_of_group_v1 str_of accepts cols3 rs = Some (Inl e)"
  shows "strips_of (elements (process_group_v1 str_of accepts progress_bar True cols3 total_locations st
                                (i, location, rs))) = strips_of (elements st)"
    and "events (process_group_v1 str_of accepts progress_bar True cols3 total_locations st (i, location, rs))
         = events (emit progress_bar (Progress i total_locations) st)
           @ [StatusProcessing (i + 1) total_locations location, StatusError location e]"
proof -
  show "strips_of (elements (process_group_v1 str_of accepts progress_bar True cols3 total_locations st
                                (i, location, rs))) = strips_of (elements st)"
    using assms by (simp add: strips_step_v1)
  show "events (process_group_v1 str_of accepts progress_bar True cols3 total_locations st (i, location, rs))
         = events (emit progress_bar (Progress i total_locations) st)
           @ [StatusProcessing (i + 1) total_locations location, StatusError location e]"
    using assms by (simp add: process_group_v1_alt Let_def place_block_def emit_def)
qed

end
